theory Spec2Isabelle
  imports Complex_Main
begin

section \<open>JavaScript values\<close>

text \<open>
  A HomeKit characteristic value has the TypeScript type \<^verbatim>\<open>string | number | boolean\<close>.
  A JavaScript number is a binary64 value. The program never does arithmetic on one: it
  converts, stores and compares. A finite number is therefore carried as the rational it
  denotes (the two zeros are one value, as they are for \<^verbatim>\<open>==\<close> and for string
  conversion), next to the three values that denote no rational.
\<close>

datatype jsnum = Fin rat | NaN | PosInf | NegInf

datatype jsvalue = JBool bool | JNum jsnum | JStr string

text \<open>
  The built-in conversions between strings and numbers round to binary64 and are part of
  the language, not of the program. They are parameters of the model: every theorem below
  holds for any behaviour of these functions. \<open>parseInt\<close> is the call with one
  argument, as the program makes it; \<open>parseInt10\<close> is \<^verbatim>\<open>Number.parseInt(text, 10)\<close>, as
  the store's client library makes it.
\<close>

record runtime =
  parseInt :: "string \<Rightarrow> jsnum"
  parseInt10 :: "string \<Rightarrow> jsnum"
  parseFloat :: "string \<Rightarrow> jsnum"
  StringToNumber :: "string \<Rightarrow> jsnum"
  NumberToString :: "jsnum \<Rightarrow> string"

text \<open>Equality of two numbers: \<^verbatim>\<open>NaN\<close> equals nothing, itself included.\<close>

definition num_eq :: "jsnum \<Rightarrow> jsnum \<Rightarrow> bool" where
  "num_eq x y = (x \<noteq> NaN \<and> y \<noteq> NaN \<and> x = y)"

definition BoolToNumber :: "bool \<Rightarrow> jsnum" where
  "BoolToNumber b = Fin (if b then 1 else 0)"

text \<open>The operator \<^verbatim>\<open>==\<close> on strings, numbers and booleans.\<close>

fun loose_eq :: "'a runtime_scheme \<Rightarrow> jsvalue \<Rightarrow> jsvalue \<Rightarrow> bool" where
  "loose_eq rt (JNum x) (JNum y) = num_eq x y"
| "loose_eq rt (JStr s) (JStr t) = (s = t)"
| "loose_eq rt (JBool p) (JBool q) = (p = q)"
| "loose_eq rt (JNum x) (JStr t) = num_eq x (StringToNumber rt t)"
| "loose_eq rt (JStr s) (JNum y) = num_eq (StringToNumber rt s) y"
| "loose_eq rt (JBool p) (JNum y) = num_eq (BoolToNumber p) y"
| "loose_eq rt (JBool p) (JStr t) = num_eq (BoolToNumber p) (StringToNumber rt t)"
| "loose_eq rt (JNum x) (JBool q) = num_eq x (BoolToNumber q)"
| "loose_eq rt (JStr s) (JBool q) = num_eq (StringToNumber rt s) (BoolToNumber q)"

text \<open>The operator \<^verbatim>\<open>===\<close>, for comparison with \<^verbatim>\<open>==\<close>.\<close>

fun strict_eq :: "jsvalue \<Rightarrow> jsvalue \<Rightarrow> bool" where
  "strict_eq (JNum x) (JNum y) = num_eq x y"
| "strict_eq (JStr s) (JStr t) = (s = t)"
| "strict_eq (JBool p) (JBool q) = (p = q)"
| "strict_eq _ _ = False"

text \<open>Unary plus on a number or a boolean (the program applies it to nothing else).\<close>

fun unary_plus :: "'a runtime_scheme \<Rightarrow> jsvalue \<Rightarrow> jsnum" where
  "unary_plus rt (JNum x) = x"
| "unary_plus rt (JBool b) = BoolToNumber b"
| "unary_plus rt (JStr s) = StringToNumber rt s"

text \<open>A template literal \<^verbatim>\<open>`${value}`\<close>.\<close>

fun ToString :: "'a runtime_scheme \<Rightarrow> jsvalue \<Rightarrow> string" where
  "ToString rt (JStr s) = s"
| "ToString rt (JBool b) = (if b then ''true'' else ''false'')"
| "ToString rt (JNum x) = NumberToString rt x"

section \<open>Resource naming\<close>

definition isAsciiLetter :: "char \<Rightarrow> bool" where
  "isAsciiLetter c =
     ((65 \<le> (of_char c :: nat) \<and> (of_char c :: nat) \<le> 90) \<or>
      (97 \<le> (of_char c :: nat) \<and> (of_char c :: nat) \<le> 122))"

text \<open>\<^verbatim>\<open>s.replace(/[^A-Za-z]/g, "")\<close>: a scan that drops each match of the class.\<close>

primrec replaceNonLetters :: "string \<Rightarrow> string" where
  "replaceNonLetters [] = []"
| "replaceNonLetters (c # cs) =
     (if isAsciiLetter c then c # replaceNonLetters cs else replaceNonLetters cs)"

section \<open>Records of the remote store\<close>

text \<open>
  A Thing of the store's client library: a name and the values added to it, each under a
  property, with the datatype of the function that added it. The library keeps every
  value as text: \<^verbatim>\<open>addInteger\<close> and \<^verbatim>\<open>addDecimal\<close> store \<^verbatim>\<open>value.toString()\<close>,
  \<^verbatim>\<open>getInteger\<close> reads the text with \<^verbatim>\<open>Number.parseInt(text, 10)\<close> and \<^verbatim>\<open>getDecimal\<close>
  with \<^verbatim>\<open>Number.parseFloat(text)\<close>, and both give \<^verbatim>\<open>null\<close> when the result is
  \<^verbatim>\<open>NaN\<close>.

  The name of a Thing made by \<^verbatim>\<open>createThing({ name })\<close> is local. In a dataset that was
  fetched, the name of a Thing is its IRI: the url that the store reported for the
  dataset, a \<open>#\<close>, and the local name.
\<close>

datatype literal = UrlLit string | StringLit string | IntegerLit string | DecimalLit string

record thing =
  thingName :: string
  props :: "(string \<times> literal) list"

type_synonym dataset = "thing list"

definition IOT :: "string \<Rightarrow> string" where
  "IOT identifier = ''http://dcg.nz/vocab/iot.ttl#'' @ identifier"

definition RDF_type :: string where
  "RDF_type = ''http://www.w3.org/1999/02/22-rdf-syntax-ns#type''"

definition createSolidDataset :: dataset where
  "createSolidDataset = []"

definition createThing :: "string \<Rightarrow> thing" where
  "createThing n = \<lparr>thingName = n, props = []\<rparr>"

definition addUrl :: "thing \<Rightarrow> string \<Rightarrow> string \<Rightarrow> thing" where
  "addUrl t p v = t\<lparr>props := props t @ [(p, UrlLit v)]\<rparr>"

definition addStringNoLocale :: "thing \<Rightarrow> string \<Rightarrow> string \<Rightarrow> thing" where
  "addStringNoLocale t p v = t\<lparr>props := props t @ [(p, StringLit v)]\<rparr>"

definition addInteger :: "'a runtime_scheme \<Rightarrow> thing \<Rightarrow> string \<Rightarrow> jsnum \<Rightarrow> thing" where
  "addInteger rt t p v = t\<lparr>props := props t @ [(p, IntegerLit (NumberToString rt v))]\<rparr>"

definition addDecimal :: "'a runtime_scheme \<Rightarrow> thing \<Rightarrow> string \<Rightarrow> jsnum \<Rightarrow> thing" where
  "addDecimal rt t p v = t\<lparr>props := props t @ [(p, DecimalLit (NumberToString rt v))]\<rparr>"

definition setThing :: "dataset \<Rightarrow> thing \<Rightarrow> dataset" where
  "setThing data t = filter (\<lambda>u. thingName u \<noteq> thingName t) data @ [t]"

definition getThing :: "dataset \<Rightarrow> string \<Rightarrow> thing option" where
  "getThing data n = find (\<lambda>t. thingName t = n) data"

text \<open>A getter reads the first value of its datatype under the property, if there is one.\<close>

primrec firstLiteral :: "(literal \<Rightarrow> 'a option) \<Rightarrow> string \<Rightarrow> (string \<times> literal) list \<Rightarrow> 'a option" where
  "firstLiteral sel p [] = None"
| "firstLiteral sel p (x # xs) =
     (if fst x = p
      then (case sel (snd x) of Some v \<Rightarrow> Some v | None \<Rightarrow> firstLiteral sel p xs)
      else firstLiteral sel p xs)"

fun asInteger :: "literal \<Rightarrow> string option" where
  "asInteger (IntegerLit n) = Some n"
| "asInteger _ = None"

fun asDecimal :: "literal \<Rightarrow> string option" where
  "asDecimal (DecimalLit n) = Some n"
| "asDecimal _ = None"

fun asString :: "literal \<Rightarrow> string option" where
  "asString (StringLit s) = Some s"
| "asString _ = None"

fun asUrl :: "literal \<Rightarrow> string option" where
  "asUrl (UrlLit s) = Some s"
| "asUrl _ = None"

text \<open>The result of a parse, \<^verbatim>\<open>null\<close> for \<^verbatim>\<open>NaN\<close>.\<close>

definition nullIfNaN :: "jsnum \<Rightarrow> jsnum option" where
  "nullIfNaN n = (if n = NaN then None else Some n)"

definition getInteger :: "'a runtime_scheme \<Rightarrow> thing \<Rightarrow> string \<Rightarrow> jsnum option" where
  "getInteger rt t p =
     (case firstLiteral asInteger p (props t) of
        None \<Rightarrow> None
      | Some text \<Rightarrow> nullIfNaN (parseInt10 rt text))"

definition getDecimal :: "'a runtime_scheme \<Rightarrow> thing \<Rightarrow> string \<Rightarrow> jsnum option" where
  "getDecimal rt t p =
     (case firstLiteral asDecimal p (props t) of
        None \<Rightarrow> None
      | Some text \<Rightarrow> nullIfNaN (parseFloat rt text))"

definition getStringNoLocale :: "thing \<Rightarrow> string \<Rightarrow> string option" where
  "getStringNoLocale t p = firstLiteral asString p (props t)"

text \<open>Every value added under a property, of the url datatype (the links of a record).\<close>

definition getUrlAll :: "thing \<Rightarrow> string \<Rightarrow> string list" where
  "getUrlAll t p = List.map_filter (\<lambda>x. if fst x = p then asUrl (snd x) else None) (props t)"

text \<open>
  What a fetch makes of a stored dataset: the local names are resolved against the url
  that the store reported.
\<close>

definition resolveDataset :: "string \<Rightarrow> dataset \<Rightarrow> dataset" where
  "resolveDataset sourceIri data =
     map (\<lambda>t. t\<lparr>thingName := sourceIri @ ''#'' @ thingName t\<rparr>) data"

section \<open>Devices and characteristics\<close>

text \<open>The fields of \<^verbatim>\<open>CharacteristicType\<close> and \<^verbatim>\<open>ServiceType\<close> that the program reads.\<close>

record characteristic =
  iid :: jsnum
  uuid :: string
  type :: string
  description :: string
  format :: string
  canRead :: bool
  canWrite :: bool
  unit :: "string option"
  "value" :: jsvalue

record service =
  aid :: jsnum
  serviceName :: string
  serviceType :: string
  serviceUuid :: string
  uniqueId :: string
  serviceCharacteristics :: "characteristic list"

section \<open>The world the program acts on\<close>

datatype error = RemoteWriteError | RemoteFetchError | ThingExpectedError | LocalWriteError

text \<open>
  What the \<^verbatim>\<open>setValue\<close> capability of a characteristic does with a value: the
  capability is optional (\<^verbatim>\<open>setValue?.\<close>), its promise may reject, or it resolves
  with the characteristic as the accessory reports it afterwards.
\<close>

datatype set_result = Unavailable | Rejected | Applied characteristic

text \<open>
  The configuration (\<^verbatim>\<open>argv.homeUrl\<close>, \<^verbatim>\<open>argv.verbose\<close>) and the collaborators. The
  \<open>n\<close>-th save request and the \<open>n\<close>-th fetch request (counted from 0) reach the store or
  fail, as the network decides. \<open>responseUrl\<close> is the url that a response carries for a
  request to a url (\<^verbatim>\<open>internal_resourceInfo.sourceIri\<close>): the request url as \<^verbatim>\<open>fetch\<close>
  serialises it, where a space of the path, for one, is written \<open>%20\<close>.
\<close>

record env = runtime +
  homeUrl :: string
  verbose :: bool
  responseUrl :: "string \<Rightarrow> string"
  saveAccepted :: "nat \<Rightarrow> bool"
  fetchAccepted :: "nat \<Rightarrow> bool"
  setValue :: "characteristic \<Rightarrow> jsvalue \<Rightarrow> set_result"

datatype log_type = INFO | SUCCESS | ERROR

text \<open>
  The state: the module-level map \<^verbatim>\<open>characteristics\<close> (the Change Cache), the
  content of the pod, each resource under the url that the store reports for it, what
  \<^verbatim>\<open>log\<close> has printed, and the trace of every call made to a collaborator.
\<close>

record world =
  characteristics :: "string \<rightharpoonup> characteristic"
  pod :: "string \<rightharpoonup> dataset"
  requests :: "(string \<times> dataset) list"
  fetches :: "string list"
  localWrites :: "(characteristic \<times> jsvalue) list"
  logged :: "(log_type \<times> string \<times> string) list"

text \<open>\<^verbatim>\<open>log(message, context, type)\<close> prints only \<^verbatim>\<open>if (argv.verbose)\<close>.\<close>

definition log :: "env \<Rightarrow> string \<Rightarrow> string \<Rightarrow> log_type \<Rightarrow> world \<Rightarrow> world" where
  "log e message context ty w =
     (if verbose e then w\<lparr>logged := logged w @ [(ty, context, message)]\<rparr> else w)"

text \<open>
  \<^verbatim>\<open>saveSolidDatasetAt(url, data)\<close> in two steps: the call, which issues the request
  and leaves a promise, and the settling of the promise, which resolves with the saved
  dataset, given by its \<^verbatim>\<open>sourceIri\<close>, or rejects. \<open>n\<close> is the number of the request.
\<close>

definition issueSave :: "string \<Rightarrow> dataset \<Rightarrow> world \<Rightarrow> world" where
  "issueSave url data w = w\<lparr>requests := requests w @ [(url, data)]\<rparr>"

definition settleSave :: "env \<Rightarrow> nat \<Rightarrow> string \<Rightarrow> dataset \<Rightarrow> world \<Rightarrow> (error + string) \<times> world" where
  "settleSave e n url data w =
     (if saveAccepted e n
      then (Inr (responseUrl e url), w\<lparr>pod := (pod w)(responseUrl e url \<mapsto> data)\<rparr>)
      else (Inl RemoteWriteError, w))"

definition saveSolidDatasetAt :: "env \<Rightarrow> string \<Rightarrow> dataset \<Rightarrow> world \<Rightarrow> (error + string) \<times> world" where
  "saveSolidDatasetAt e url data w =
     settleSave e (length (requests w)) url data (issueSave url data w)"

definition getSolidDataset :: "env \<Rightarrow> string \<Rightarrow> world \<Rightarrow> (error + dataset) \<times> world" where
  "getSolidDataset e url w =
     (let w' = w\<lparr>fetches := fetches w @ [url]\<rparr> in
      if fetchAccepted e (length (fetches w))
      then (case pod w (responseUrl e url) of
              None \<Rightarrow> (Inl RemoteFetchError, w')
            | Some data \<Rightarrow> (Inr (resolveDataset (responseUrl e url) data), w'))
      else (Inl RemoteFetchError, w'))"

section \<open>Forward sync\<close>

definition characteristicName :: "'a runtime_scheme \<Rightarrow> characteristic \<Rightarrow> string" where
  "characteristicName rt c = replaceNonLetters (type c) @ NumberToString rt (iid c)"

definition deviceName :: "'a runtime_scheme \<Rightarrow> service \<Rightarrow> string" where
  "deviceName rt device = replaceNonLetters (serviceName device) @ NumberToString rt (aid device)"

definition groupThingName :: "string \<Rightarrow> string" where
  "groupThingName groupName = replaceNonLetters groupName"

definition characteristicUrl :: "env \<Rightarrow> service \<Rightarrow> characteristic \<Rightarrow> string" where
  "characteristicUrl e device c =
     homeUrl e @ ''/Characteristics/'' @ uniqueId device @ ''/'' @ type c"

definition deviceUrl :: "env \<Rightarrow> service \<Rightarrow> string" where
  "deviceUrl e device = homeUrl e @ ''/Devices/'' @ uniqueId device"

definition groupUrl :: "env \<Rightarrow> string \<Rightarrow> string" where
  "groupUrl e groupName = homeUrl e @ ''/Groups/'' @ groupName"

definition integerFamily :: "string set" where
  "integerFamily = {''int'', ''uint8'', ''uint16'', ''uint32'', ''uint64''}"

definition supportedFormats :: "string set" where
  "supportedFormats = {''bool'', ''string'', ''float''} \<union> integerFamily"

text \<open>
  The \<^verbatim>\<open>switch (characteristic.format)\<close> of \<^verbatim>\<open>syncCharacteristicToSolid\<close>: the value
  goes into the record with the datatype of its format; the default branch logs and adds
  nothing.
\<close>

definition encodeValue :: "env \<Rightarrow> characteristic \<Rightarrow> thing \<Rightarrow> world \<Rightarrow> thing \<times> world" where
  "encodeValue e c t w =
     (let v = value c in
      if format c = ''bool'' then
        (addInteger e t (IOT ''value'')
           (case v of JStr s \<Rightarrow> parseInt e s | _ \<Rightarrow> unary_plus e v), w)
      else if format c = ''string'' then
        (addStringNoLocale t (IOT ''value'') (ToString e v), w)
      else if format c = ''float'' then
        (addDecimal e t (IOT ''value'')
           (case v of JStr s \<Rightarrow> parseFloat e s | _ \<Rightarrow> unary_plus e v), w)
      else if format c \<in> integerFamily then
        (addInteger e t (IOT ''value'')
           (case v of JStr s \<Rightarrow> parseInt e s | _ \<Rightarrow> unary_plus e v), w)
      else (t, log e ''Unsupported format'' ''solid'' ERROR w))"

text \<open>The attributes of a characteristic record that come before its value.\<close>

definition characteristicThing :: "'a runtime_scheme \<Rightarrow> characteristic \<Rightarrow> thing" where
  "characteristicThing rt c =
     (let t = createThing (characteristicName rt c);
          t = addUrl t RDF_type (IOT ''Characteristic'');
          t = addStringNoLocale t (IOT ''desc'') (description c);
          t = addStringNoLocale t (IOT ''format'') (format c);
          t = addInteger rt t (IOT ''canRead'') (BoolToNumber (canRead c));
          t = addInteger rt t (IOT ''canWrite'') (BoolToNumber (canWrite c));
          t = addStringNoLocale t (IOT ''type'') (type c);
          t = addInteger rt t (IOT ''id'') (iid c);
          t = addStringNoLocale t (IOT ''uuid'') (uuid c)
      in case unit c of
           None \<Rightarrow> t
         | Some u \<Rightarrow> if u = [] then t else addStringNoLocale t (IOT ''unit'') u)"

text \<open>The guard \<^verbatim>\<open>curr && characteristic.value == curr.value\<close>.\<close>

definition suppressed :: "env \<Rightarrow> service \<Rightarrow> characteristic \<Rightarrow> world \<Rightarrow> bool" where
  "suppressed e device c w =
     (case characteristics w (characteristicUrl e device c) of
        None \<Rightarrow> False
      | Some cur \<Rightarrow> loose_eq e (value c) (value cur))"

text \<open>
  \<^verbatim>\<open>syncCharacteristicToSolid\<close> is an async function without an \<^verbatim>\<open>await\<close>: its body
  runs in one piece up to the \<^verbatim>\<open>return\<close>, which either returns \<^verbatim>\<open>undefined\<close> or calls
  \<^verbatim>\<open>saveSolidDatasetAt\<close> and hands its promise on. \<open>syncCharacteristicToSolid_call\<close> is
  that piece; what it leaves is \<open>Returned\<close>, or \<open>Awaiting n url data\<close> while request \<open>n\<close> is
  in flight. \<open>syncCharacteristicToSolid_settle\<close> is the settling of the promise.
\<close>

datatype call = Returned | Awaiting nat string dataset

definition syncCharacteristicToSolid_call ::
    "env \<Rightarrow> service \<Rightarrow> characteristic \<Rightarrow> world \<Rightarrow> call \<times> world" where
  "syncCharacteristicToSolid_call e device c w =
     (let url = characteristicUrl e device c in
      if suppressed e device c w then (Returned, w)
      else
        let (t, w1) = encodeValue e c (characteristicThing e c) w;
            data = setThing createSolidDataset t;
            w2 = w1\<lparr>characteristics := (characteristics w1)(url \<mapsto> c)\<rparr>
        in (Awaiting (length (requests w2)) url data, issueSave url data w2))"

fun syncCharacteristicToSolid_settle ::
    "env \<Rightarrow> call \<Rightarrow> world \<Rightarrow> (error + string option) \<times> world" where
  "syncCharacteristicToSolid_settle e Returned w = (Inr None, w)"
| "syncCharacteristicToSolid_settle e (Awaiting n url data) w =
     (case settleSave e n url data w of
        (Inl err, w') \<Rightarrow> (Inl err, w')
      | (Inr iri, w') \<Rightarrow> (Inr (Some iri), w'))"

text \<open>
  The whole of \<^verbatim>\<open>syncCharacteristicToSolid\<close>, as a caller that awaits it sees it. The
  result is the rejection of the promise, or what it resolves with: \<^verbatim>\<open>undefined\<close>
  (\<open>None\<close>) or the saved dataset, given by its \<^verbatim>\<open>sourceIri\<close>.
\<close>

definition syncCharacteristicToSolid ::
    "env \<Rightarrow> service \<Rightarrow> characteristic \<Rightarrow> world \<Rightarrow> (error + string option) \<times> world" where
  "syncCharacteristicToSolid e device c w =
     (case syncCharacteristicToSolid_call e device c w of
        (k, w') \<Rightarrow> syncCharacteristicToSolid_settle e k w')"

text \<open>
  The loop of \<^verbatim>\<open>syncDeviceToSolid\<close> over \<^verbatim>\<open>device.serviceCharacteristics\<close>: each sync is
  awaited, so a rejection leaves the loop and the function at that point.
\<close>

fun linkCharacteristics ::
    "env \<Rightarrow> service \<Rightarrow> characteristic list \<Rightarrow> thing \<Rightarrow> world \<Rightarrow> (error + thing) \<times> world" where
  "linkCharacteristics e device [] t w = (Inr t, w)"
| "linkCharacteristics e device (c # cs) t w =
     (case syncCharacteristicToSolid e device c w of
        (Inl err, w') \<Rightarrow> (Inl err, w')
      | (Inr None, w') \<Rightarrow> linkCharacteristics e device cs t w'
      | (Inr (Some iri), w') \<Rightarrow>
          linkCharacteristics e device cs (addUrl t (IOT ''hasCharacteristic'') iri) w')"

definition deviceThing :: "'a runtime_scheme \<Rightarrow> service \<Rightarrow> thing" where
  "deviceThing rt device =
     (let t = createThing (deviceName rt device);
          t = addUrl t RDF_type (IOT ''Device'');
          t = addStringNoLocale t (IOT ''name'') (serviceName device);
          t = addStringNoLocale t (IOT ''type'') (serviceType device);
          t = addInteger rt t (IOT ''id'') (aid device);
          t = addStringNoLocale t (IOT ''uuid'') (serviceUuid device)
      in t)"

definition syncDeviceToSolid :: "env \<Rightarrow> service \<Rightarrow> world \<Rightarrow> (error + string) \<times> world" where
  "syncDeviceToSolid e device w =
     (case linkCharacteristics e device (serviceCharacteristics device) (deviceThing e device) w of
        (Inl err, w') \<Rightarrow> (Inl err, w')
      | (Inr t, w') \<Rightarrow>
          saveSolidDatasetAt e (deviceUrl e device) (setThing createSolidDataset t) w')"

definition groupThing :: "string \<Rightarrow> string list \<Rightarrow> thing" where
  "groupThing groupName deviceUrls =
     (let t = createThing (groupThingName groupName);
          t = addUrl t RDF_type (IOT ''Group'');
          t = addStringNoLocale t (IOT ''name'') groupName
      in foldl (\<lambda>t u. addUrl t (IOT ''contains'') u) t deviceUrls)"

definition syncGroupToSolid :: "env \<Rightarrow> string \<Rightarrow> string list \<Rightarrow> world \<Rightarrow> (error + string) \<times> world" where
  "syncGroupToSolid e groupName deviceUrls w =
     saveSolidDatasetAt e (groupUrl e groupName)
       (setThing createSolidDataset (groupThing groupName deviceUrls)) w"

section \<open>Reverse sync\<close>

text \<open>
  The \<^verbatim>\<open>switch (format)\<close> of the message handler: the value is read with the getter of
  the format; the default branch logs and yields \<^verbatim>\<open>null\<close>.
\<close>

definition decodeValue :: "env \<Rightarrow> thing \<Rightarrow> world \<Rightarrow> jsvalue option \<times> world" where
  "decodeValue e t w =
     (let fmt = getStringNoLocale t (IOT ''format'') in
      if fmt = Some ''bool'' then (map_option JNum (getInteger e t (IOT ''value'')), w)
      else if fmt = Some ''string'' then (map_option JStr (getStringNoLocale t (IOT ''value'')), w)
      else if fmt = Some ''float'' then (map_option JNum (getDecimal e t (IOT ''value'')), w)
      else if fmt \<in> Some ` integerFamily then (map_option JNum (getInteger e t (IOT ''value'')), w)
      else (None, log e ''Unsupported format'' ''solid'' ERROR w))"

text \<open>
  \<^verbatim>\<open>socket.onmessage\<close>. The handler is an async function: \<open>Inl\<close> is the rejection of its
  promise, \<open>Inr ()\<close> its normal end. The record is asked for under the IRI made of the
  url of the message, a \<open>#\<close> and the name; when the dataset has no such Thing,
  \<^verbatim>\<open>getThing\<close> gives \<^verbatim>\<open>null\<close> and the next getter throws.
\<close>

definition onmessage :: "env \<Rightarrow> string \<Rightarrow> world \<Rightarrow> (error + unit) \<times> world" where
  "onmessage e msg w =
     (if msg \<noteq> [] \<and> take 3 msg = ''pub'' then
        let resourceUrl = drop 4 msg in
        case characteristics w resourceUrl of
          None \<Rightarrow> (Inr (), w)
        | Some cur \<Rightarrow>
            (case getSolidDataset e resourceUrl w of
               (Inl err, w1) \<Rightarrow> (Inl err, w1)
             | (Inr data, w1) \<Rightarrow>
                 (case getThing data (resourceUrl @ ''#'' @ characteristicName e cur) of
                    None \<Rightarrow> (Inl ThingExpectedError, w1)
                  | Some t \<Rightarrow>
                      (case decodeValue e t w1 of
                         (None, w2) \<Rightarrow> (Inr (), w2)
                       | (Some v, w2) \<Rightarrow>
                           if \<not> loose_eq e v (value cur) then
                             (case setValue e cur v of
                                Unavailable \<Rightarrow> (Inr (), w2)
                              | Rejected \<Rightarrow>
                                  (Inl LocalWriteError,
                                   w2\<lparr>localWrites := localWrites w2 @ [(cur, v)]\<rparr>)
                              | Applied updated \<Rightarrow>
                                  (Inr (),
                                   w2\<lparr>localWrites := localWrites w2 @ [(cur, v)],
                                      characteristics := (characteristics w2)(resourceUrl \<mapsto> updated)\<rparr>))
                           else (Inr (), w2))))
      else (Inr (), w))"

section \<open>Sample data\<close>

text \<open>
  A runtime for the examples. Its conversions agree with the language on the inputs the
  examples use: texts that start with a decimal digit and are made of digits, with or
  without a fraction after a point, and the numbers that such texts denote.
\<close>

definition isDigit :: "char \<Rightarrow> bool" where
  "isDigit c = (48 \<le> (of_char c :: nat) \<and> (of_char c :: nat) \<le> 57)"

definition digitsValue :: "string \<Rightarrow> nat" where
  "digitsValue s = foldl (\<lambda>n c. 10 * n + ((of_char c :: nat) - 48)) 0 s"

text \<open>The integer that a text starts with.\<close>

definition leadingInteger :: "string \<Rightarrow> jsnum" where
  "leadingInteger s =
     (let ds = takeWhile isDigit s in
      if ds = [] then NaN else Fin (of_nat (digitsValue ds)))"

text \<open>The decimal that a text starts with.\<close>

definition leadingDecimal :: "string \<Rightarrow> jsnum" where
  "leadingDecimal s =
     (let ds = takeWhile isDigit s in
      if ds = [] then NaN
      else case dropWhile isDigit s of
             c # r \<Rightarrow>
               (let fs = takeWhile isDigit r in
                if c = CHR ''.'' \<and> fs \<noteq> []
                then Fin (of_nat (digitsValue ds) + of_nat (digitsValue fs) / 10 ^ length fs)
                else Fin (of_nat (digitsValue ds)))
           | [] \<Rightarrow> Fin (of_nat (digitsValue ds)))"

text \<open>The number that a whole text denotes.\<close>

definition decimalNumber :: "string \<Rightarrow> jsnum" where
  "decimalNumber s =
     (if list_all (\<lambda>c. isDigit c \<or> c = CHR ''.'') s \<and> s \<noteq> [] \<and> last s \<noteq> CHR ''.''
         \<and> length (filter (\<lambda>c. c = CHR ''.'') s) \<le> 1
      then leadingDecimal s else NaN)"

fun showNat :: "nat \<Rightarrow> string" where
  "showNat n =
     (if n < 10 then [''0123456789'' ! n]
      else showNat (n div 10) @ [''0123456789'' ! (n mod 10)])"

text \<open>The digits of a fraction, at most \<open>k\<close> of them.\<close>

fun showFraction :: "nat \<Rightarrow> rat \<Rightarrow> string" where
  "showFraction 0 r = []"
| "showFraction (Suc k) r =
     (if r = 0 then []
      else (''0123456789'' ! nat \<lfloor>r * 10\<rfloor>) # showFraction k (r * 10 - of_int \<lfloor>r * 10\<rfloor>))"

definition showNumber :: "jsnum \<Rightarrow> string" where
  "showNumber x =
     (case x of
        Fin q \<Rightarrow>
          (if q = of_int \<lfloor>q\<rfloor> then showNat (nat \<lfloor>q\<rfloor>)
           else showNat (nat \<lfloor>q\<rfloor>) @ ''.'' @ showFraction 17 (q - of_int \<lfloor>q\<rfloor>))
      | NaN \<Rightarrow> ''NaN''
      | PosInf \<Rightarrow> ''Infinity''
      | NegInf \<Rightarrow> ''-Infinity'')"

text \<open>
  The url of a response, for the sample urls: the only characters that the
  serialisation of a url changes in them are spaces.
\<close>

primrec encodeSpaces :: "string \<Rightarrow> string" where
  "encodeSpaces [] = []"
| "encodeSpaces (c # cs) =
     (if c = CHR '' '' then ''%20'' @ encodeSpaces cs else c # encodeSpaces cs)"

definition sampleEnv :: env where
  "sampleEnv =
     \<lparr>parseInt = leadingInteger, parseInt10 = leadingInteger, parseFloat = leadingDecimal,
      StringToNumber = decimalNumber, NumberToString = showNumber,
      homeUrl = ''https://pod.example/home'', verbose = False, responseUrl = encodeSpaces,
      saveAccepted = (\<lambda>n. True), fetchAccepted = (\<lambda>n. True),
      setValue = (\<lambda>c v. Applied (c\<lparr>value := v\<rparr>))\<rparr>"

text \<open>The same, with verbose logging.\<close>

definition verboseEnv :: env where
  "verboseEnv = sampleEnv\<lparr>verbose := True\<rparr>"

text \<open>The same, with a store that rejects every write.\<close>

definition offlineEnv :: env where
  "offlineEnv = sampleEnv\<lparr>saveAccepted := (\<lambda>n. False)\<rparr>"

text \<open>The same, with a store that rejects the first write only.\<close>

definition flakyEnv :: env where
  "flakyEnv = sampleEnv\<lparr>saveAccepted := (\<lambda>n. n \<noteq> 0)\<rparr>"

definition cOn :: characteristic where
  "cOn = \<lparr>iid = Fin 10, uuid = ''25'', type = ''On'', description = ''On'',
          format = ''bool'', canRead = True, canWrite = True, unit = None,
          value = JBool True\<rparr>"

text \<open>The same characteristic, switched off.\<close>

definition cOff :: characteristic where
  "cOff = cOn\<lparr>value := JBool False\<rparr>"

definition cTemp :: characteristic where
  "cTemp = \<lparr>iid = Fin 11, uuid = ''11'', type = ''Current Temperature'',
            description = ''Current Temperature'', format = ''float'', canRead = True,
            canWrite = False, unit = Some ''celsius'', value = JNum (Fin 21.5)\<rparr>"

definition cTlv :: characteristic where
  "cTlv = \<lparr>iid = Fin 12, uuid = ''19'', type = ''Lock Control Point'',
           description = ''Lock Control Point'', format = ''tlv8'', canRead = False,
           canWrite = True, unit = None, value = JStr ''AA==''\<rparr>"

text \<open>A characteristic of the integer family.\<close>

definition cBrightness :: characteristic where
  "cBrightness = \<lparr>iid = Fin 13, uuid = ''8'', type = ''Brightness'',
           description = ''Brightness'', format = ''int'', canRead = True,
           canWrite = True, unit = Some ''percentage'', value = JNum (Fin 80)\<rparr>"

text \<open>A characteristic of the format \<open>string\<close>.\<close>

definition cLabel :: characteristic where
  "cLabel = \<lparr>iid = Fin 14, uuid = ''23'', type = ''Name'',
           description = ''Name'', format = ''string'', canRead = True,
           canWrite = False, unit = None, value = JStr ''Kitchen Lamp''\<rparr>"

definition lamp :: service where
  "lamp = \<lparr>aid = Fin 2, serviceName = ''Kitchen Lamp'', serviceType = ''Lightbulb'',
           serviceUuid = ''43'', uniqueId = ''d1'',
           serviceCharacteristics = [cOn, cTemp]\<rparr>"

definition lock :: service where
  "lock = \<lparr>aid = Fin 3, serviceName = ''Front Door'', serviceType = ''LockManagement'',
           serviceUuid = ''44'', uniqueId = ''d2'',
           serviceCharacteristics = [cTlv, cOn]\<rparr>"

definition emptyWorld :: world where
  "emptyWorld = \<lparr>characteristics = Map.empty, pod = Map.empty, requests = [],
                 fetches = [], localWrites = [], logged = []\<rparr>"

text \<open>A world in which both characteristics of the lamp are cached with their values.\<close>

definition syncedWorld :: world where
  "syncedWorld =
     emptyWorld\<lparr>characteristics :=
       [characteristicUrl sampleEnv lamp cOn \<mapsto> cOn,
        characteristicUrl sampleEnv lamp cTemp \<mapsto> cTemp]\<rparr>"

text \<open>
  A world in which the lamp is cached as on, and another agent has set the value of its
  record in the pod to 0.
\<close>

definition remoteOffWorld :: world where
  "remoteOffWorld =
     emptyWorld\<lparr>characteristics := [characteristicUrl sampleEnv lamp cOn \<mapsto> cOn],
       pod := [responseUrl sampleEnv (characteristicUrl sampleEnv lamp cOn) \<mapsto>
                 [(characteristicThing sampleEnv cOn)
                    \<lparr>props := props (characteristicThing sampleEnv cOn) @
                       [(IOT ''value'', IntegerLit ''0'')]\<rparr>]]\<rparr>"

section \<open>Facts about the forward sync\<close>

lemma log_fields:
  "characteristics (log e m ctx ty w) = characteristics w"
  "requests (log e m ctx ty w) = requests w"
  "pod (log e m ctx ty w) = pod w"
  "fetches (log e m ctx ty w) = fetches w"
  "localWrites (log e m ctx ty w) = localWrites w"
  by (simp_all add: log_def)

lemma call_suppressed:
  "suppressed e device c w \<Longrightarrow> syncCharacteristicToSolid_call e device c w = (Returned, w)"
  by (simp add: syncCharacteristicToSolid_call_def)

lemma sync_suppressed:
  "suppressed e device c w \<Longrightarrow> syncCharacteristicToSolid e device c w = (Inr None, w)"
  by (simp add: syncCharacteristicToSolid_def call_suppressed)

lemma encodeValue_snd:
  "snd (encodeValue e c t w) =
     (if format c \<in> supportedFormats then w else log e ''Unsupported format'' ''solid'' ERROR w)"
  by (auto simp: encodeValue_def supportedFormats_def integerFamily_def Let_def)

lemma encodeValue_unsupported:
  "format c \<notin> supportedFormats \<Longrightarrow>
     encodeValue e c t w = (t, log e ''Unsupported format'' ''solid'' ERROR w)"
  by (auto simp: encodeValue_def supportedFormats_def integerFamily_def Let_def)

lemma encodeValue_thingName:
  "thingName (fst (encodeValue e c t w)) = thingName t"
  by (auto simp: encodeValue_def Let_def addInteger_def addDecimal_def addStringNoLocale_def)

text \<open>What the call of a sync that is not suppressed leaves, in one equation.\<close>

lemma call_not_suppressed:
  assumes "\<not> suppressed e device c w"
  shows "syncCharacteristicToSolid_call e device c w =
    (let url = characteristicUrl e device c;
         t = fst (encodeValue e c (characteristicThing e c) w);
         w1 = snd (encodeValue e c (characteristicThing e c) w)
     in (Awaiting (length (requests w)) url [t],
         w1\<lparr>characteristics := (characteristics w1)(url \<mapsto> c),
            requests := requests w1 @ [(url, [t])]\<rparr>))"
  using assms
  by (simp add: syncCharacteristicToSolid_call_def issueSave_def Let_def setThing_def
      createSolidDataset_def case_prod_beta encodeValue_snd log_fields)

text \<open>What a sync that is not suppressed does, in one equation.\<close>

lemma sync_not_suppressed:
  assumes "\<not> suppressed e device c w"
  shows "syncCharacteristicToSolid e device c w =
    (let url = characteristicUrl e device c;
         t = fst (encodeValue e c (characteristicThing e c) w);
         w1 = snd (encodeValue e c (characteristicThing e c) w);
         w2 = w1\<lparr>characteristics := (characteristics w1)(url \<mapsto> c),
                 requests := requests w1 @ [(url, [t])]\<rparr>
     in if saveAccepted e (length (requests w))
        then (Inr (Some (responseUrl e url)), w2\<lparr>pod := (pod w2)(responseUrl e url \<mapsto> [t])\<rparr>)
        else (Inl RemoteWriteError, w2))"
  by (simp add: syncCharacteristicToSolid_def call_not_suppressed [OF assms] Let_def
      settleSave_def)

lemma characteristicUrl_inj:
  "characteristicUrl e device c = characteristicUrl e device c' \<longleftrightarrow> type c = type c'"
  by (simp add: characteristicUrl_def)

lemma sync_cache:
  "characteristics (snd (syncCharacteristicToSolid e device c w)) =
     (if suppressed e device c w then characteristics w
      else (characteristics w)(characteristicUrl e device c \<mapsto> c))"
  by (simp add: sync_suppressed sync_not_suppressed Let_def encodeValue_snd log_fields)

lemma sync_requests:
  "requests (snd (syncCharacteristicToSolid e device c w)) =
     (if suppressed e device c w then requests w
      else requests w @ [(characteristicUrl e device c,
                          [fst (encodeValue e c (characteristicThing e c) w)])])"
  by (simp add: sync_suppressed sync_not_suppressed Let_def encodeValue_snd log_fields)

lemma sync_result:
  "fst (syncCharacteristicToSolid e device c w) =
     (if suppressed e device c w then Inr None
      else if saveAccepted e (length (requests w))
      then Inr (Some (responseUrl e (characteristicUrl e device c)))
      else Inl RemoteWriteError)"
  by (simp add: sync_suppressed sync_not_suppressed Let_def)

lemma suppressed_after_sync:
  assumes "value c \<noteq> JNum NaN"
  shows "suppressed e device c (snd (syncCharacteristicToSolid e device c w))"
proof (cases "suppressed e device c w")
  case True
  then show ?thesis by (simp add: sync_suppressed)
next
  case False
  have "loose_eq e (value c) (value c)"
    using assms by (cases "value c") (simp_all add: num_eq_def)
  then show ?thesis
    by (simp add: suppressed_def sync_cache False)
qed

subsection \<open>The loop over the characteristics of a device\<close>

lemma link_all_suppressed:
  "\<forall>c\<in>set cs. suppressed e device c w \<Longrightarrow> linkCharacteristics e device cs t w = (Inr t, w)"
  by (induction cs) (simp_all add: sync_suppressed)

lemma link_append:
  "linkCharacteristics e device (pre @ post) t w =
     (case linkCharacteristics e device pre t w of
        (Inl err, w') \<Rightarrow> (Inl err, w')
      | (Inr t', w') \<Rightarrow> linkCharacteristics e device post t' w')"
  by (induction pre arbitrary: t w) (simp_all split: prod.splits sum.splits option.splits)

lemma link_Cons:
  "linkCharacteristics e device (c # cs) t w =
     (case fst (syncCharacteristicToSolid e device c w) of
        Inl err \<Rightarrow> (Inl err, snd (syncCharacteristicToSolid e device c w))
      | Inr None \<Rightarrow> linkCharacteristics e device cs t (snd (syncCharacteristicToSolid e device c w))
      | Inr (Some iri) \<Rightarrow>
          linkCharacteristics e device cs (addUrl t (IOT ''hasCharacteristic'') iri)
            (snd (syncCharacteristicToSolid e device c w)))"
  by (cases "syncCharacteristicToSolid e device c w") (simp split: sum.splits option.splits)

lemma suppressed_cong:
  "characteristics w (characteristicUrl e device c) = characteristics w' (characteristicUrl e device c)
     \<Longrightarrow> suppressed e device c w = suppressed e device c w'"
  by (simp add: suppressed_def)

lemma sync_cache_other:
  "type c' \<noteq> type c \<Longrightarrow>
     characteristics (snd (syncCharacteristicToSolid e device c w)) (characteristicUrl e device c') =
     characteristics w (characteristicUrl e device c')"
  by (simp add: sync_cache characteristicUrl_inj)

lemma link_cache_other:
  "type c' \<notin> type ` set cs \<Longrightarrow>
     characteristics (snd (linkCharacteristics e device cs t w)) (characteristicUrl e device c') =
     characteristics w (characteristicUrl e device c')"
proof (induction cs arbitrary: t w)
  case Nil
  then show ?case by simp
next
  case (Cons c cs)
  obtain r w1 where s: "syncCharacteristicToSolid e device c w = (r, w1)"
    by (cases "syncCharacteristicToSolid e device c w")
  have o: "characteristics w1 (characteristicUrl e device c') =
      characteristics w (characteristicUrl e device c')"
    using sync_cache_other [of c' c e device w] Cons.prems s by simp
  have i: "characteristics (snd (linkCharacteristics e device cs t' w1)) (characteristicUrl e device c') =
      characteristics w1 (characteristicUrl e device c')" for t'
    using Cons.IH [of t' w1] Cons.prems by simp
  show ?case
    by (simp add: s o i split: sum.splits option.splits)
qed

lemma link_cache_dom:
  "dom (characteristics w) \<subseteq> dom (characteristics (snd (linkCharacteristics e device cs t w)))"
proof (induction cs arbitrary: t w)
  case Nil
  then show ?case by simp
next
  case (Cons c cs)
  obtain r w1 where s: "syncCharacteristicToSolid e device c w = (r, w1)"
    by (cases "syncCharacteristicToSolid e device c w")
  have "characteristics w1 =
     (if suppressed e device c w then characteristics w
      else (characteristics w)(characteristicUrl e device c \<mapsto> c))"
    using sync_cache [of e device c w] s by simp
  then have d: "dom (characteristics w) \<subseteq> dom (characteristics w1)"
    by auto
  have i: "dom (characteristics w1) \<subseteq> dom (characteristics (snd (linkCharacteristics e device cs t' w1)))" for t'
    by (rule Cons.IH)
  have "dom (characteristics w) \<subseteq> dom (characteristics (snd (linkCharacteristics e device cs t' w1)))" for t'
    using d i [of t'] by (rule order_trans)
  then show ?case
    using d by (simp add: s split: sum.splits option.splits)
qed

lemma link_synced:
  "fst (linkCharacteristics e device cs t w) = Inr t' \<Longrightarrow>
     \<forall>c\<in>set cs. characteristicUrl e device c \<in> dom (characteristics (snd (linkCharacteristics e device cs t w)))"
proof (induction cs arbitrary: t w)
  case Nil
  then show ?case by simp
next
  case (Cons c cs)
  obtain r w1 where s: "syncCharacteristicToSolid e device c w = (r, w1)"
    by (cases "syncCharacteristicToSolid e device c w")
  have k: "characteristics w1 =
     (if suppressed e device c w then characteristics w
      else (characteristics w)(characteristicUrl e device c \<mapsto> c))"
    using sync_cache [of e device c w] s by simp
  have here: "characteristicUrl e device c \<in> dom (characteristics w1)"
    using k by (auto simp: suppressed_def split: option.splits)
  show ?case
  proof (cases r)
    case (Inl err)
    then show ?thesis using Cons.prems s by simp
  next
    case (Inr res)
    define t1 where "t1 = (case res of None \<Rightarrow> t | Some iri \<Rightarrow> addUrl t (IOT ''hasCharacteristic'') iri)"
    have step: "linkCharacteristics e device (c # cs) t w = linkCharacteristics e device cs t1 w1"
      by (simp add: s Inr t1_def split: option.splits)
    have "fst (linkCharacteristics e device cs t1 w1) = Inr t'"
      using Cons.prems step by simp
    then have rest: "\<forall>c\<in>set cs. characteristicUrl e device c \<in>
        dom (characteristics (snd (linkCharacteristics e device cs t1 w1)))"
      by (rule Cons.IH)
    have "characteristicUrl e device c \<in> dom (characteristics (snd (linkCharacteristics e device cs t1 w1)))"
      using here link_cache_dom [of w1 e device cs t1] by blast
    then show ?thesis
      using rest step by simp
  qed
qed

lemma link_accepted:
  "\<forall>n. saveAccepted e n \<Longrightarrow> \<exists>t'. fst (linkCharacteristics e device cs t w) = Inr t'"
proof (induction cs arbitrary: t w)
  case Nil
  then show ?case by simp
next
  case (Cons c cs)
  obtain r w1 where s: "syncCharacteristicToSolid e device c w = (r, w1)"
    by (cases "syncCharacteristicToSolid e device c w")
  have "r \<noteq> Inl err" for err
    using sync_result [of e device c w] s Cons.prems by (auto split: if_splits)
  then obtain res where r: "r = Inr res"
    by (cases r) auto
  show ?case
    using Cons.IH [OF Cons.prems] by (simp add: s r split: option.splits)
qed

lemma link_suppresses:
  "fst (linkCharacteristics e device cs t w) = Inr t' \<Longrightarrow> distinct (map type cs) \<Longrightarrow>
   \<forall>c\<in>set cs. value c \<noteq> JNum NaN \<Longrightarrow>
     \<forall>c\<in>set cs. suppressed e device c (snd (linkCharacteristics e device cs t w))"
proof (induction cs arbitrary: t w)
  case Nil
  then show ?case by simp
next
  case (Cons c cs)
  obtain r w1 where s: "syncCharacteristicToSolid e device c w = (r, w1)"
    by (cases "syncCharacteristicToSolid e device c w")
  have here: "suppressed e device c w1"
    using suppressed_after_sync [of c e device w] Cons.prems(3) s by simp
  show ?case
  proof (cases r)
    case (Inl err)
    then show ?thesis using Cons.prems s by simp
  next
    case (Inr res)
    define t1 where "t1 = (case res of None \<Rightarrow> t | Some iri \<Rightarrow> addUrl t (IOT ''hasCharacteristic'') iri)"
    have step: "linkCharacteristics e device (c # cs) t w = linkCharacteristics e device cs t1 w1"
      by (simp add: s Inr t1_def split: option.splits)
    have "fst (linkCharacteristics e device cs t1 w1) = Inr t'"
      using Cons.prems step by simp
    then have rest: "\<forall>c\<in>set cs. suppressed e device c (snd (linkCharacteristics e device cs t1 w1))"
      using Cons.prems by (intro Cons.IH) simp_all
    have "type c \<notin> type ` set cs"
      using Cons.prems(2) by auto
    then have "characteristics (snd (linkCharacteristics e device cs t1 w1)) (characteristicUrl e device c) =
        characteristics w1 (characteristicUrl e device c)"
      by (rule link_cache_other)
    then have "suppressed e device c (snd (linkCharacteristics e device cs t1 w1))"
      using here suppressed_cong by blast
    then show ?thesis
      using rest step by simp
  qed
qed

lemma save_characteristics:
  "characteristics (snd (saveSolidDatasetAt e url data w)) = characteristics w"
  by (simp add: saveSolidDatasetAt_def settleSave_def issueSave_def)

lemma save_result:
  "fst (saveSolidDatasetAt e url data w) =
     (if saveAccepted e (length (requests w)) then Inr (responseUrl e url)
      else Inl RemoteWriteError)"
  by (simp add: saveSolidDatasetAt_def settleSave_def issueSave_def)

lemma save_requests:
  "requests (snd (saveSolidDatasetAt e url data w)) = requests w @ [(url, data)]"
  by (simp add: saveSolidDatasetAt_def settleSave_def issueSave_def)

lemma syncDevice_unfold:
  "syncDeviceToSolid e device w =
     (case fst (linkCharacteristics e device (serviceCharacteristics device) (deviceThing e device) w) of
        Inl err \<Rightarrow> (Inl err, snd (linkCharacteristics e device (serviceCharacteristics device) (deviceThing e device) w))
      | Inr t \<Rightarrow> saveSolidDatasetAt e (deviceUrl e device) [t]
                  (snd (linkCharacteristics e device (serviceCharacteristics device) (deviceThing e device) w)))"
  by (simp add: syncDeviceToSolid_def setThing_def createSolidDataset_def split: prod.splits sum.splits)

lemma syncDevice_accepted:
  assumes "\<forall>n. saveAccepted e n"
  shows "fst (syncDeviceToSolid e device w) = Inr (responseUrl e (deviceUrl e device))"
proof -
  obtain t' where "fst (linkCharacteristics e device (serviceCharacteristics device)
      (deviceThing e device) w) = Inr t'"
    using link_accepted [OF assms] by blast
  then show ?thesis
    using assms by (simp add: syncDevice_unfold save_result)
qed

lemma deviceThing_no_links:
  "getUrlAll (deviceThing rt device) (IOT ''hasCharacteristic'') = []"
  by (simp add: deviceThing_def Let_def createThing_def addUrl_def addStringNoLocale_def
      addInteger_def getUrlAll_def List.map_filter_simps IOT_def RDF_type_def)

section \<open>Reading a written record back\<close>

lemma firstLiteral_append:
  "firstLiteral sel p (xs @ ys) =
     (case firstLiteral sel p xs of Some v \<Rightarrow> Some v | None \<Rightarrow> firstLiteral sel p ys)"
  by (induction xs) (simp_all split: option.splits)

lemma characteristicThing_format:
  "firstLiteral asString (IOT ''format'') (props (characteristicThing rt c)) = Some (format c)"
  by (simp add: characteristicThing_def Let_def createThing_def addUrl_def
      addStringNoLocale_def addInteger_def IOT_def RDF_type_def split: option.splits)

lemma characteristicThing_name:
  "thingName (characteristicThing rt c) = characteristicName rt c"
  by (simp add: characteristicThing_def Let_def createThing_def addUrl_def
      addStringNoLocale_def addInteger_def split: option.splits)

lemma characteristicThing_no_value:
  "firstLiteral sel (IOT ''value'') (props (characteristicThing rt c)) = None"
  by (simp add: characteristicThing_def Let_def createThing_def addUrl_def
      addStringNoLocale_def addInteger_def IOT_def RDF_type_def split: option.splits)

lemma characteristicThing_value_absent:
  "getInteger rt (characteristicThing rt' c) (IOT ''value'') = None"
  "getDecimal rt (characteristicThing rt' c) (IOT ''value'') = None"
  "getStringNoLocale (characteristicThing rt' c) (IOT ''value'') = None"
  by (simp_all add: getInteger_def getDecimal_def getStringNoLocale_def characteristicThing_no_value)

text \<open>
  The text that the switch of the forward sync stores for a value, by format, and what the
  handler's switch makes of a record that carries it.
\<close>

lemma encodeValue_props:
  assumes "format c \<in> supportedFormats"
  shows "props (fst (encodeValue e c t w)) = props t @ [(IOT ''value'',
     if format c = ''string'' then StringLit (ToString e (value c))
     else if format c = ''float''
     then DecimalLit (NumberToString e
            (case value c of JStr s \<Rightarrow> parseFloat e s | _ \<Rightarrow> unary_plus e (value c)))
     else IntegerLit (NumberToString e
            (case value c of JStr s \<Rightarrow> parseInt e s | _ \<Rightarrow> unary_plus e (value c))))]"
  using assms
  by (auto simp: encodeValue_def Let_def addInteger_def addDecimal_def addStringNoLocale_def
      supportedFormats_def integerFamily_def)

lemma decode_record:
  assumes "format c \<in> supportedFormats"
    and "props t = props (characteristicThing rt c) @ [(IOT ''value'', l)]"
  shows "fst (decodeValue e t w) =
     (if format c = ''string'' then map_option JStr (asString l)
      else if format c = ''float''
      then (case asDecimal l of None \<Rightarrow> None
            | Some text \<Rightarrow> map_option JNum (nullIfNaN (parseFloat e text)))
      else (case asInteger l of None \<Rightarrow> None
            | Some text \<Rightarrow> map_option JNum (nullIfNaN (parseInt10 e text))))"
  using assms
  by (auto simp: decodeValue_def Let_def getStringNoLocale_def getInteger_def getDecimal_def
      firstLiteral_append characteristicThing_format characteristicThing_no_value
      supportedFormats_def integerFamily_def split: option.splits)

lemma decode_encode:
  assumes "format c \<in> supportedFormats"
    and "props t = props (fst (encodeValue e c (characteristicThing e c) w))"
  shows "fst (decodeValue e t w') =
     (if format c = ''string'' then Some (JStr (ToString e (value c)))
      else if format c = ''float''
      then map_option JNum (nullIfNaN (parseFloat e (NumberToString e
             (case value c of JStr s \<Rightarrow> parseFloat e s | _ \<Rightarrow> unary_plus e (value c)))))
      else map_option JNum (nullIfNaN (parseInt10 e (NumberToString e
             (case value c of JStr s \<Rightarrow> parseInt e s | _ \<Rightarrow> unary_plus e (value c))))))"
proof -
  note p = assms(2) [unfolded encodeValue_props [OF assms(1)]]
  show ?thesis
    by (simp add: decode_record [OF assms(1) p])
qed

lemma decode_Some:
  "fst (decodeValue e t w) = Some v \<Longrightarrow> decodeValue e t w' = (Some v, w')"
  by (auto simp: decodeValue_def Let_def split: if_splits)

section \<open>Facts about the reverse sync\<close>

lemma getSolidDataset_found:
  "fetchAccepted e (length (fetches w)) \<Longrightarrow> pod w (responseUrl e url) = Some data \<Longrightarrow>
     getSolidDataset e url w =
       (Inr (resolveDataset (responseUrl e url) data), w\<lparr>fetches := fetches w @ [url]\<rparr>)"
  by (simp add: getSolidDataset_def Let_def)

text \<open>
  A fetched dataset has a Thing under the IRI that the handler asks for only if the store
  reports the url of the message unchanged.
\<close>

lemma getThing_resolved:
  "getThing (resolveDataset sourceIri [t]) (url @ ''#'' @ n) =
     (if sourceIri @ ''#'' @ thingName t = url @ ''#'' @ n
      then Some (t\<lparr>thingName := sourceIri @ ''#'' @ thingName t\<rparr>) else None)"
  by (simp add: getThing_def resolveDataset_def)

text \<open>
  The handler on a message for a cached resource whose record is fetched, found and
  decoded to a value \<open>v\<close>: all that is left is the comparison and the local write.
\<close>

lemma onmessage_decoded:
  assumes "msg \<noteq> []" and "take 3 msg = ''pub''"
    and "characteristics w (drop 4 msg) = Some cur"
    and "fetchAccepted e (length (fetches w))"
    and "pod w (responseUrl e (drop 4 msg)) = Some data"
    and "getThing (resolveDataset (responseUrl e (drop 4 msg)) data)
           (drop 4 msg @ ''#'' @ characteristicName e cur) = Some t"
    and "fst (decodeValue e t w) = Some v"
  shows "onmessage e msg w =
     (let w2 = w\<lparr>fetches := fetches w @ [drop 4 msg]\<rparr> in
      if \<not> loose_eq e v (value cur) then
        (case setValue e cur v of
           Unavailable \<Rightarrow> (Inr (), w2)
         | Rejected \<Rightarrow> (Inl LocalWriteError, w2\<lparr>localWrites := localWrites w2 @ [(cur, v)]\<rparr>)
         | Applied updated \<Rightarrow>
             (Inr (), w2\<lparr>localWrites := localWrites w2 @ [(cur, v)],
                        characteristics := (characteristics w2)(drop 4 msg \<mapsto> updated)\<rparr>))
      else (Inr (), w2))"
proof -
  have d: "decodeValue e t (w\<lparr>fetches := fetches w @ [drop 4 msg]\<rparr>) =
      (Some v, w\<lparr>fetches := fetches w @ [drop 4 msg]\<rparr>)"
    using assms(7) by (rule decode_Some)
  show ?thesis
    using assms(1-3,6)
    by (simp add: onmessage_def Let_def getSolidDataset_found [OF assms(4,5)] d)
qed

section \<open>Names of records\<close>

lemma replaceNonLetters_filter: "replaceNonLetters n = filter isAsciiLetter n"
  by (induction n) simp_all

lemma groupThing_name: "thingName (groupThing g urls) = groupThingName g"
proof -
  have "thingName (foldl (\<lambda>t u. addUrl t p u) t0 urls) = thingName t0" for p t0
    by (induction urls arbitrary: t0) (simp_all add: addUrl_def)
  then show ?thesis
    by (simp add: groupThing_def Let_def createThing_def addUrl_def addStringNoLocale_def)
qed

lemma deviceThing_name: "thingName (deviceThing rt device) = deviceName rt device"
  by (simp add: deviceThing_def Let_def createThing_def addUrl_def addStringNoLocale_def
      addInteger_def)

section \<open>Facts about the sample data\<close>

lemma not_suppressed_empty: "\<not> suppressed e device c emptyWorld"
  by (simp add: suppressed_def emptyWorld_def)

lemma cTlv_unsupported: "format cTlv \<notin> supportedFormats"
  by (simp add: cTlv_def supportedFormats_def integerFamily_def)

lemma cOn_url: "characteristicUrl e lamp cOn = homeUrl e @ ''/Characteristics/d1/On''"
  by (simp add: characteristicUrl_def lamp_def cOn_def)

lemma cOff_url: "characteristicUrl e device cOff = characteristicUrl e device cOn"
  by (simp add: characteristicUrl_def cOff_def)

lemma cOn_response: "responseUrl sampleEnv (characteristicUrl sampleEnv lamp cOn) =
    characteristicUrl sampleEnv lamp cOn"
  by (simp add: cOn_url) (simp add: sampleEnv_def)

lemma pub_message:
  "''pub '' @ url \<noteq> []" "take 3 (''pub '' @ url) = ''pub''" "drop 4 (''pub '' @ url) = url"
  by simp_all

lemma cOn_facts:
  "format cOn = ''bool''" "value cOn = JBool True" "type cOn = ''On''"
  by (simp_all add: cOn_def)

lemma sample_texts:
  "NumberToString sampleEnv (Fin 0) = ''0''" "NumberToString sampleEnv (Fin 1) = ''1''"
  "NumberToString sampleEnv (Fin 80) = ''80''" "NumberToString sampleEnv (Fin 21.5) = ''21.5''"
  "NumberToString sampleEnv (Fin 2) = ''2''" "NumberToString sampleEnv (Fin 11) = ''11''"
  by (simp_all add: sampleEnv_def) code_simp+

lemma sample_numbers:
  "parseInt10 sampleEnv ''0'' = Fin 0" "parseInt10 sampleEnv ''1'' = Fin 1"
  "parseInt10 sampleEnv ''80'' = Fin 80" "parseFloat sampleEnv ''21.5'' = Fin 21.5"
  "StringToNumber sampleEnv ''1'' = Fin 1"
  by (simp_all add: sampleEnv_def) code_simp+

lemma cTlv_url:
  "characteristicUrl sampleEnv lamp cTlv =
     ''https://pod.example/home/Characteristics/d1/Lock Control Point''"
  "characteristicUrl verboseEnv lamp cTlv =
     ''https://pod.example/home/Characteristics/d1/Lock Control Point''"
  "responseUrl sampleEnv ''https://pod.example/home/Characteristics/d1/Lock Control Point'' =
     ''https://pod.example/home/Characteristics/d1/Lock%20Control%20Point''"
  by (simp_all add: characteristicUrl_def sampleEnv_def verboseEnv_def lamp_def cTlv_def)

lemma syncedWorld_on:
  "characteristics syncedWorld (characteristicUrl e lamp cOn) =
     (if homeUrl e = homeUrl sampleEnv then Some cOn else None)"
  by (auto simp: syncedWorld_def emptyWorld_def characteristicUrl_def cOn_def cTemp_def)

lemma offlineEnv_facts:
  "homeUrl offlineEnv = homeUrl sampleEnv" "\<not> saveAccepted offlineEnv n"
  "homeUrl sampleEnv = ''https://pod.example/home''"
  by (simp_all add: offlineEnv_def sampleEnv_def)

lemma cOff_differs:
  "\<not> loose_eq e (value cOff) (value cOn)" "cOff \<noteq> cOn"
  by (simp_all add: cOff_def cOn_def)

lemma sample_formats:
  "format cTemp = ''float''" "value cTemp = JNum (Fin 21.5)"
  "format cBrightness = ''int''" "value cBrightness = JNum (Fin 80)"
  "format cLabel = ''string''" "value cLabel = JStr ''Kitchen Lamp''"
  by (simp_all add: cTemp_def cBrightness_def cLabel_def)

text \<open>
  The type of the temperature has a space, which the store reports as \<open>%20\<close>: the
  handler asks for an IRI that the fetched dataset does not have, and throws.
\<close>

lemma encoded_url_not_found:
  "fst (onmessage sampleEnv (''pub '' @ characteristicUrl sampleEnv lamp cTemp)
         (snd (syncCharacteristicToSolid sampleEnv lamp cTemp emptyWorld))) = Inl ThingExpectedError"
  by code_simp

section \<open>Unsupported formats (claim C1)\<close>

text \<open>
  The lock's control point has the format \<open>tlv8\<close>, which is not supported. Its sync
  does not fail and does not stay without effect: the promise resolves with the saved
  record, one write has been issued, and the cache has an entry that it did not have.
\<close>

theorem unsupported_format_counterexample:
  "format cTlv \<notin> supportedFormats \<and>
   fst (syncCharacteristicToSolid sampleEnv lamp cTlv emptyWorld) =
     Inr (Some ''https://pod.example/home/Characteristics/d1/Lock%20Control%20Point'') \<and>
   length (requests (snd (syncCharacteristicToSolid sampleEnv lamp cTlv emptyWorld))) = 1 \<and>
   requests emptyWorld = [] \<and>
   characteristics emptyWorld ''https://pod.example/home/Characteristics/d1/Lock Control Point'' = None \<and>
   characteristics (snd (syncCharacteristicToSolid sampleEnv lamp cTlv emptyWorld))
     ''https://pod.example/home/Characteristics/d1/Lock Control Point'' = Some cTlv"
proof -
  have a: "saveAccepted sampleEnv n" for n
    by (simp add: sampleEnv_def)
  show ?thesis
    by (simp add: cTlv_unsupported sync_result sync_requests sync_cache not_suppressed_empty a
        cTlv_url)
      (simp add: emptyWorld_def)
qed

text \<open>
  Claim C1, as the code has it. For a characteristic whose format is not supported and
  whose sync is not suppressed by the cache, the forward sync calls \<^verbatim>\<open>log\<close> with
  \<open>Unsupported format\<close>, which prints it when logging is verbose, stores the
  characteristic in the cache, and issues the write of its record; the record is the one
  built before the switch and carries no value. The result is that of the write.
\<close>

theorem unsupported_format_written:
  assumes "format c \<notin> supportedFormats" and "\<not> suppressed e device c w"
  shows "fst (syncCharacteristicToSolid e device c w) =
           (if saveAccepted e (length (requests w))
            then Inr (Some (responseUrl e (characteristicUrl e device c)))
            else Inl RemoteWriteError) \<and>
         logged (snd (syncCharacteristicToSolid e device c w)) =
           (if verbose e then logged w @ [(ERROR, ''solid'', ''Unsupported format'')]
            else logged w) \<and>
         characteristics (snd (syncCharacteristicToSolid e device c w)) =
           (characteristics w)(characteristicUrl e device c \<mapsto> c) \<and>
         requests (snd (syncCharacteristicToSolid e device c w)) =
           requests w @ [(characteristicUrl e device c, [characteristicThing e c])] \<and>
         getInteger e (characteristicThing e c) (IOT ''value'') = None \<and>
         getDecimal e (characteristicThing e c) (IOT ''value'') = None \<and>
         getStringNoLocale (characteristicThing e c) (IOT ''value'') = None"
  using assms
  by (simp add: sync_not_suppressed Let_def encodeValue_unsupported log_def
      characteristicThing_value_absent)

theorem unsupported_format_written_witness:
  "format cTlv \<notin> supportedFormats \<and> \<not> suppressed verboseEnv lamp cTlv emptyWorld \<and>
   verbose verboseEnv \<and>
   logged (snd (syncCharacteristicToSolid verboseEnv lamp cTlv emptyWorld)) =
     [(ERROR, ''solid'', ''Unsupported format'')] \<and>
   characteristics (snd (syncCharacteristicToSolid verboseEnv lamp cTlv emptyWorld))
     ''https://pod.example/home/Characteristics/d1/Lock Control Point'' = Some cTlv \<and>
   \<not> suppressed sampleEnv lamp cTlv emptyWorld \<and> \<not> verbose sampleEnv \<and>
   logged (snd (syncCharacteristicToSolid sampleEnv lamp cTlv emptyWorld)) = [] \<and>
   fst (syncCharacteristicToSolid sampleEnv lamp cTlv emptyWorld) =
     Inr (Some ''https://pod.example/home/Characteristics/d1/Lock%20Control%20Point'')"
proof -
  have v: "verbose verboseEnv" "\<not> verbose sampleEnv" and a: "saveAccepted sampleEnv n" for n
    by (simp_all add: verboseEnv_def sampleEnv_def)
  have l: "logged emptyWorld = []" and c: "characteristics emptyWorld = Map.empty"
    by (simp_all add: emptyWorld_def)
  note r = unsupported_format_written [OF cTlv_unsupported not_suppressed_empty,
      where e = verboseEnv and device = lamp]
  note q = unsupported_format_written [OF cTlv_unsupported not_suppressed_empty,
      where e = sampleEnv and device = lamp]
  have r1: "logged (snd (syncCharacteristicToSolid verboseEnv lamp cTlv emptyWorld)) =
     [(ERROR, ''solid'', ''Unsupported format'')]"
    using r by (simp add: v l)
  have r2: "characteristics (snd (syncCharacteristicToSolid verboseEnv lamp cTlv emptyWorld))
     ''https://pod.example/home/Characteristics/d1/Lock Control Point'' = Some cTlv"
    using r by (simp add: cTlv_url c)
  have q1: "logged (snd (syncCharacteristicToSolid sampleEnv lamp cTlv emptyWorld)) = []"
    using q by (simp add: v l)
  have q2: "fst (syncCharacteristicToSolid sampleEnv lamp cTlv emptyWorld) =
     Inr (Some ''https://pod.example/home/Characteristics/d1/Lock%20Control%20Point'')"
    using q by (simp add: a cTlv_url)
  show ?thesis
    by (intro conjI cTlv_unsupported not_suppressed_empty v r1 r2 q1 q2)
qed

section \<open>The cache and the remote write (claim C2)\<close>

text \<open>
  The lamp is cached as on. With a store that rejects every write, the sync of the lamp
  switched off is rejected, and the cache entry is no longer the one from before the
  write: it holds the lamp switched off.
\<close>

theorem cache_set_on_failed_write_counterexample:
  "characteristics syncedWorld ''https://pod.example/home/Characteristics/d1/On'' = Some cOn \<and>
   \<not> loose_eq offlineEnv (value cOff) (value cOn) \<and>
   fst (syncCharacteristicToSolid offlineEnv lamp cOff syncedWorld) = Inl RemoteWriteError \<and>
   characteristics (snd (syncCharacteristicToSolid offlineEnv lamp cOff syncedWorld))
     ''https://pod.example/home/Characteristics/d1/On'' = Some cOff \<and>
   cOff \<noteq> cOn"
proof -
  have u: "characteristicUrl offlineEnv lamp cOff = ''https://pod.example/home/Characteristics/d1/On''"
    by (simp add: cOff_url cOn_url offlineEnv_facts)
  have k: "characteristics syncedWorld ''https://pod.example/home/Characteristics/d1/On'' = Some cOn"
    using syncedWorld_on [of offlineEnv] by (simp add: cOn_url offlineEnv_facts)
  have n: "\<not> suppressed offlineEnv lamp cOff syncedWorld"
    by (simp add: suppressed_def u k cOff_differs)
  show ?thesis
    by (simp add: k cOff_differs sync_result sync_cache n offlineEnv_facts u)
qed

text \<open>
  Claim C2, as the code has it. When the value differs from the cached one, the piece of
  the forward sync that runs before the outcome of the write is known has already
  replaced the cache entry by the characteristic; it has issued the write and has not
  changed the pod. The settling of the write does not touch the cache: the entry stays
  whether the write succeeds or is rejected. The sync is rejected exactly when the write
  is, and then the pod is unchanged.
\<close>

theorem cache_set_before_write:
  assumes "characteristics w (characteristicUrl e device c) = Some cur"
    and "\<not> loose_eq e (value c) (value cur)"
  shows "fst (syncCharacteristicToSolid_call e device c w) =
           Awaiting (length (requests w)) (characteristicUrl e device c)
             [fst (encodeValue e c (characteristicThing e c) w)] \<and>
         characteristics (snd (syncCharacteristicToSolid_call e device c w)) =
           (characteristics w)(characteristicUrl e device c \<mapsto> c) \<and>
         requests (snd (syncCharacteristicToSolid_call e device c w)) =
           requests w @ [(characteristicUrl e device c,
                          [fst (encodeValue e c (characteristicThing e c) w)])] \<and>
         pod (snd (syncCharacteristicToSolid_call e device c w)) = pod w \<and>
         syncCharacteristicToSolid e device c w =
           syncCharacteristicToSolid_settle e (fst (syncCharacteristicToSolid_call e device c w))
             (snd (syncCharacteristicToSolid_call e device c w)) \<and>
         characteristics (snd (syncCharacteristicToSolid e device c w)) =
           characteristics (snd (syncCharacteristicToSolid_call e device c w)) \<and>
         (fst (syncCharacteristicToSolid e device c w) = Inl RemoteWriteError \<longleftrightarrow>
            \<not> saveAccepted e (length (requests w))) \<and>
         (\<not> saveAccepted e (length (requests w)) \<longrightarrow>
            pod (snd (syncCharacteristicToSolid e device c w)) = pod w)"
proof -
  have n: "\<not> suppressed e device c w"
    using assms by (simp add: suppressed_def)
  have s: "syncCharacteristicToSolid e device c w =
           syncCharacteristicToSolid_settle e (fst (syncCharacteristicToSolid_call e device c w))
             (snd (syncCharacteristicToSolid_call e device c w))"
    by (simp add: syncCharacteristicToSolid_def case_prod_beta)
  show ?thesis
    using n
    by (simp add: s) (simp add: call_not_suppressed Let_def encodeValue_snd log_fields settleSave_def)
qed

theorem cache_set_before_write_witness:
  "characteristics syncedWorld (characteristicUrl offlineEnv lamp cOff) = Some cOn \<and>
   \<not> loose_eq offlineEnv (value cOff) (value cOn) \<and>
   \<not> saveAccepted offlineEnv (length (requests syncedWorld)) \<and>
   characteristics (snd (syncCharacteristicToSolid_call offlineEnv lamp cOff syncedWorld)) =
     (characteristics syncedWorld)(characteristicUrl offlineEnv lamp cOff \<mapsto> cOff) \<and>
   pod (snd (syncCharacteristicToSolid_call offlineEnv lamp cOff syncedWorld)) = pod syncedWorld \<and>
   characteristics (snd (syncCharacteristicToSolid offlineEnv lamp cOff syncedWorld)) =
     characteristics (snd (syncCharacteristicToSolid_call offlineEnv lamp cOff syncedWorld)) \<and>
   fst (syncCharacteristicToSolid offlineEnv lamp cOff syncedWorld) = Inl RemoteWriteError \<and>
   pod (snd (syncCharacteristicToSolid offlineEnv lamp cOff syncedWorld)) = pod syncedWorld"
proof -
  have k: "characteristics syncedWorld (characteristicUrl offlineEnv lamp cOff) = Some cOn"
    using syncedWorld_on [of offlineEnv] by (simp add: cOff_url offlineEnv_facts)
  have d: "\<not> loose_eq offlineEnv (value cOff) (value cOn)"
    by (rule cOff_differs)
  have a: "\<not> saveAccepted offlineEnv (length (requests syncedWorld))"
    by (rule offlineEnv_facts)
  note r = cache_set_before_write [OF k d]
  have r1: "fst (syncCharacteristicToSolid offlineEnv lamp cOff syncedWorld) = Inl RemoteWriteError"
    and r2: "pod (snd (syncCharacteristicToSolid offlineEnv lamp cOff syncedWorld)) = pod syncedWorld"
    using r a by blast+
  show ?thesis
    by (intro conjI k d a r1 r2 r [THEN conjunct2, THEN conjunct1]
        r [THEN conjunct2, THEN conjunct2, THEN conjunct2, THEN conjunct1]
        r [THEN conjunct2, THEN conjunct2, THEN conjunct2, THEN conjunct2, THEN conjunct2,
           THEN conjunct1])
qed

section \<open>Failures during a full device sync (claim C3)\<close>

text \<open>
  The lamp has two characteristics. When the store rejects the first write, the sync of
  the device is rejected: the only write issued is that of the first characteristic, the
  second characteristic has no cache entry, and no device record is written.
\<close>

theorem device_sync_aborts_counterexample:
  "serviceCharacteristics lamp = [cOn, cTemp] \<and>
   fst (syncDeviceToSolid flakyEnv lamp emptyWorld) = Inl RemoteWriteError \<and>
   map fst (requests (snd (syncDeviceToSolid flakyEnv lamp emptyWorld))) =
     [''https://pod.example/home/Characteristics/d1/On''] \<and>
   characteristics (snd (syncDeviceToSolid flakyEnv lamp emptyWorld))
     ''https://pod.example/home/Characteristics/d1/Current Temperature'' = None"
proof -
  have h: "homeUrl flakyEnv = ''https://pod.example/home''"
    and a: "\<not> saveAccepted flakyEnv 0"
    by (simp_all add: flakyEnv_def sampleEnv_def)
  have r: "requests emptyWorld = []" and c: "characteristics emptyWorld = Map.empty"
    by (simp_all add: emptyWorld_def)
  have f: "fst (syncCharacteristicToSolid flakyEnv lamp cOn emptyWorld) = Inl RemoteWriteError"
    by (simp add: sync_result not_suppressed_empty r a)
  have l: "linkCharacteristics flakyEnv lamp [cOn, cTemp] t emptyWorld =
      (Inl RemoteWriteError, snd (syncCharacteristicToSolid flakyEnv lamp cOn emptyWorld))" for t
    by (simp only: link_Cons f sum.case)
  have s: "serviceCharacteristics lamp = [cOn, cTemp]"
    by (simp add: lamp_def)
  have d: "syncDeviceToSolid flakyEnv lamp emptyWorld =
      (Inl RemoteWriteError, snd (syncCharacteristicToSolid flakyEnv lamp cOn emptyWorld))"
    unfolding syncDeviceToSolid_def s l by simp
  show ?thesis
    by (simp add: s d sync_requests sync_cache not_suppressed_empty r c cOn_url h)
qed

text \<open>
  Claim C3, as the code has it. Whatever the formats of the characteristics, when the
  store accepts every write the sync of the device resolves, every characteristic has
  been synced (it has a cache entry) and the last write is that of the device record: an
  unsupported format aborts nothing. A rejected write of one characteristic rejects the
  sync of the device in the state that this write left: the characteristics after it are
  not synced and the device record is not written.
\<close>

theorem device_sync_failure_propagation:
  "((\<forall>n. saveAccepted e n) \<longrightarrow>
      fst (syncDeviceToSolid e device w) = Inr (responseUrl e (deviceUrl e device)) \<and>
      (\<forall>c\<in>set (serviceCharacteristics device).
         characteristicUrl e device c \<in> dom (characteristics (snd (syncDeviceToSolid e device w)))) \<and>
      (\<exists>t. last (requests (snd (syncDeviceToSolid e device w))) = (deviceUrl e device, [t]))) \<and>
   (serviceCharacteristics device = pre @ c # post \<and>
    linkCharacteristics e device pre (deviceThing e device) w = (Inr t1, w1) \<and>
    syncCharacteristicToSolid e device c w1 = (Inl err, w2) \<longrightarrow>
      syncDeviceToSolid e device w = (Inl err, w2))"
proof (intro conjI impI)
  assume acc: "\<forall>n. saveAccepted e n"
  let ?l = "linkCharacteristics e device (serviceCharacteristics device) (deviceThing e device) w"
  obtain t' where t': "fst ?l = Inr t'"
    using link_accepted [OF acc] by blast
  have d: "syncDeviceToSolid e device w = saveSolidDatasetAt e (deviceUrl e device) [t'] (snd ?l)"
    by (simp add: syncDevice_unfold t')
  show "fst (syncDeviceToSolid e device w) = Inr (responseUrl e (deviceUrl e device))"
    using acc by (simp add: d save_result)
  show "\<forall>c\<in>set (serviceCharacteristics device).
         characteristicUrl e device c \<in> dom (characteristics (snd (syncDeviceToSolid e device w)))"
    using link_synced [OF t'] by (simp add: d save_characteristics)
  show "\<exists>t. last (requests (snd (syncDeviceToSolid e device w))) = (deviceUrl e device, [t])"
    by (simp add: d save_requests)
next
  assume h: "serviceCharacteristics device = pre @ c # post \<and>
    linkCharacteristics e device pre (deviceThing e device) w = (Inr t1, w1) \<and>
    syncCharacteristicToSolid e device c w1 = (Inl err, w2)"
  then have "linkCharacteristics e device (serviceCharacteristics device) (deviceThing e device) w =
      (Inl err, w2)"
    by (simp add: link_append)
  then show "syncDeviceToSolid e device w = (Inl err, w2)"
    by (simp add: syncDeviceToSolid_def)
qed

theorem device_sync_failure_propagation_witness:
  "(\<forall>n. saveAccepted sampleEnv n) \<and>
   format cTlv \<notin> supportedFormats \<and> serviceCharacteristics lock = [cTlv, cOn] \<and>
   fst (syncDeviceToSolid sampleEnv lock emptyWorld) =
     Inr (responseUrl sampleEnv (deviceUrl sampleEnv lock)) \<and>
   characteristicUrl sampleEnv lock cOn \<in> dom (characteristics (snd (syncDeviceToSolid sampleEnv lock emptyWorld))) \<and>
   serviceCharacteristics lamp = [] @ cOn # [cTemp] \<and>
   linkCharacteristics flakyEnv lamp [] (deviceThing flakyEnv lamp) emptyWorld =
     (Inr (deviceThing flakyEnv lamp), emptyWorld) \<and>
   syncCharacteristicToSolid flakyEnv lamp cOn emptyWorld =
     (Inl RemoteWriteError, snd (syncCharacteristicToSolid flakyEnv lamp cOn emptyWorld)) \<and>
   syncDeviceToSolid flakyEnv lamp emptyWorld =
     (Inl RemoteWriteError, snd (syncCharacteristicToSolid flakyEnv lamp cOn emptyWorld))"
proof -
  have acc: "\<forall>n. saveAccepted sampleEnv n"
    by (simp add: sampleEnv_def)
  have a: "\<not> saveAccepted flakyEnv 0"
    by (simp add: flakyEnv_def sampleEnv_def)
  have r: "requests emptyWorld = []"
    by (simp add: emptyWorld_def)
  have s1: "serviceCharacteristics lock = [cTlv, cOn]"
    and s2: "serviceCharacteristics lamp = [] @ cOn # [cTemp]"
    by (simp_all add: lock_def lamp_def)
  have f: "syncCharacteristicToSolid flakyEnv lamp cOn emptyWorld =
     (Inl RemoteWriteError, snd (syncCharacteristicToSolid flakyEnv lamp cOn emptyWorld))"
    using sync_result [of flakyEnv lamp cOn emptyWorld]
    by (simp add: not_suppressed_empty r a prod_eq_iff)
  have l: "linkCharacteristics flakyEnv lamp [] (deviceThing flakyEnv lamp) emptyWorld =
     (Inr (deviceThing flakyEnv lamp), emptyWorld)"
    by simp
  show ?thesis
    using device_sync_failure_propagation [of sampleEnv lock emptyWorld]
      device_sync_failure_propagation [of flakyEnv lamp emptyWorld "[]" cOn "[cTemp]"
        "deviceThing flakyEnv lamp" emptyWorld RemoteWriteError
        "snd (syncCharacteristicToSolid flakyEnv lamp cOn emptyWorld)"]
      acc s1 s2 f l cTlv_unsupported
    by simp
qed

section \<open>The equal-value guard (claim C4)\<close>

text \<open>
  Claim C4. When the cache has an entry for the target resource whose value equals the
  candidate value (by \<^verbatim>\<open>==\<close>), the forward sync resolves with \<^verbatim>\<open>undefined\<close> and
  leaves the whole state as it was: no write, no cache update. Hence, when a first sync
  is not suppressed and the value equals itself (it is not \<^verbatim>\<open>NaN\<close>), a second sync
  of the same characteristic right after it changes nothing, and the two calls together
  have issued exactly one write.
\<close>

theorem equal_cached_value_no_effect:
  "(characteristics w (characteristicUrl e device c) = Some cur \<and>
    loose_eq e (value c) (value cur) \<longrightarrow>
      syncCharacteristicToSolid e device c w = (Inr None, w)) \<and>
   (\<not> suppressed e device c w \<and> value c \<noteq> JNum NaN \<longrightarrow>
      syncCharacteristicToSolid e device c (snd (syncCharacteristicToSolid e device c w)) =
        (Inr None, snd (syncCharacteristicToSolid e device c w)) \<and>
      length (requests (snd (syncCharacteristicToSolid e device c
                (snd (syncCharacteristicToSolid e device c w))))) = length (requests w) + 1)"
proof (intro conjI impI)
  assume "characteristics w (characteristicUrl e device c) = Some cur \<and>
    loose_eq e (value c) (value cur)"
  then have "suppressed e device c w"
    by (simp add: suppressed_def)
  then show "syncCharacteristicToSolid e device c w = (Inr None, w)"
    by (rule sync_suppressed)
next
  assume h: "\<not> suppressed e device c w \<and> value c \<noteq> JNum NaN"
  then have s: "suppressed e device c (snd (syncCharacteristicToSolid e device c w))"
    by (simp add: suppressed_after_sync)
  then show second: "syncCharacteristicToSolid e device c (snd (syncCharacteristicToSolid e device c w)) =
        (Inr None, snd (syncCharacteristicToSolid e device c w))"
    by (rule sync_suppressed)
  show "length (requests (snd (syncCharacteristicToSolid e device c
                (snd (syncCharacteristicToSolid e device c w))))) = length (requests w) + 1"
    using h by (simp add: second sync_requests)
qed

theorem equal_cached_value_no_effect_witness:
  "\<not> suppressed sampleEnv lamp cOn emptyWorld \<and> value cOn \<noteq> JNum NaN \<and>
   characteristics (snd (syncCharacteristicToSolid sampleEnv lamp cOn emptyWorld))
     (characteristicUrl sampleEnv lamp cOn) = Some cOn \<and>
   loose_eq sampleEnv (value cOn) (value cOn) \<and>
   syncCharacteristicToSolid sampleEnv lamp cOn (snd (syncCharacteristicToSolid sampleEnv lamp cOn emptyWorld)) =
     (Inr None, snd (syncCharacteristicToSolid sampleEnv lamp cOn emptyWorld)) \<and>
   length (requests (snd (syncCharacteristicToSolid sampleEnv lamp cOn
                (snd (syncCharacteristicToSolid sampleEnv lamp cOn emptyWorld))))) = 1"
proof -
  have v: "value cOn \<noteq> JNum NaN" and l: "loose_eq sampleEnv (value cOn) (value cOn)"
    by (simp_all add: cOn_def)
  have k: "characteristics (snd (syncCharacteristicToSolid sampleEnv lamp cOn emptyWorld))
     (characteristicUrl sampleEnv lamp cOn) = Some cOn"
    by (simp add: sync_cache not_suppressed_empty)
  have r: "requests emptyWorld = []"
    by (simp add: emptyWorld_def)
  show ?thesis
    using equal_cached_value_no_effect [of "snd (syncCharacteristicToSolid sampleEnv lamp cOn emptyWorld)"
        sampleEnv lamp cOn cOn]
      equal_cached_value_no_effect [of emptyWorld sampleEnv lamp cOn cOn]
    by (simp add: v l k r not_suppressed_empty sync_requests)
qed

section \<open>No echo between the two directions (claim C5)\<close>

text \<open>
  Claim C5. The reverse sync fetches the record of a cached resource, decodes a value
  \<open>v\<close> that differs from the cached one and applies it with the local write capability,
  which resolves with the characteristic as the accessory reports it, its value equal to
  \<open>v\<close> (by \<^verbatim>\<open>==\<close>). Then the cache holds that characteristic, and a forward sync of
  the same resource carrying \<open>v\<close> resolves with \<^verbatim>\<open>undefined\<close> and leaves the whole
  state as it was: no remote write is issued.
\<close>

theorem applied_remote_value_not_echoed:
  assumes "msg \<noteq> []" and "take 3 msg = ''pub''"
    and "characteristics w (drop 4 msg) = Some cur"
    and "fetchAccepted e (length (fetches w))"
    and "pod w (responseUrl e (drop 4 msg)) = Some data"
    and "getThing (resolveDataset (responseUrl e (drop 4 msg)) data)
           (drop 4 msg @ ''#'' @ characteristicName e cur) = Some t"
    and "fst (decodeValue e t w) = Some v"
    and "\<not> loose_eq e v (value cur)"
    and "setValue e cur v = Applied updated" and "loose_eq e v (value updated)"
    and "characteristicUrl e device c = drop 4 msg" and "value c = v"
  shows "fst (onmessage e msg w) = Inr () \<and>
         localWrites (snd (onmessage e msg w)) = localWrites w @ [(cur, v)] \<and>
         characteristics (snd (onmessage e msg w)) (drop 4 msg) = Some updated \<and>
         syncCharacteristicToSolid e device c (snd (onmessage e msg w)) =
           (Inr None, snd (onmessage e msg w)) \<and>
         requests (snd (syncCharacteristicToSolid e device c (snd (onmessage e msg w)))) = requests w"
proof -
  have m: "onmessage e msg w =
      (Inr (), w\<lparr>fetches := fetches w @ [drop 4 msg],
                 localWrites := localWrites w @ [(cur, v)],
                 characteristics := (characteristics w)(drop 4 msg \<mapsto> updated)\<rparr>)"
    using onmessage_decoded [OF assms(1-7)] assms(8,9) by (simp add: Let_def)
  have s: "suppressed e device c (snd (onmessage e msg w))"
    using assms(10-12) by (simp add: m suppressed_def)
  have f: "syncCharacteristicToSolid e device c (snd (onmessage e msg w)) =
           (Inr None, snd (onmessage e msg w))"
    using s by (rule sync_suppressed)
  show ?thesis
    by (simp add: f) (simp add: m)
qed

theorem applied_remote_value_not_echoed_witness:
  "''pub '' @ characteristicUrl sampleEnv lamp cOn \<noteq> [] \<and>
   take 3 (''pub '' @ characteristicUrl sampleEnv lamp cOn) = ''pub'' \<and>
   characteristics remoteOffWorld (drop 4 (''pub '' @ characteristicUrl sampleEnv lamp cOn)) = Some cOn \<and>
   fetchAccepted sampleEnv (length (fetches remoteOffWorld)) \<and>
   pod remoteOffWorld (responseUrl sampleEnv (drop 4 (''pub '' @ characteristicUrl sampleEnv lamp cOn))) =
     Some [(characteristicThing sampleEnv cOn)
             \<lparr>props := props (characteristicThing sampleEnv cOn) @ [(IOT ''value'', IntegerLit ''0'')]\<rparr>] \<and>
   getThing (resolveDataset
       (responseUrl sampleEnv (drop 4 (''pub '' @ characteristicUrl sampleEnv lamp cOn)))
       [(characteristicThing sampleEnv cOn)
          \<lparr>props := props (characteristicThing sampleEnv cOn) @ [(IOT ''value'', IntegerLit ''0'')]\<rparr>])
     (drop 4 (''pub '' @ characteristicUrl sampleEnv lamp cOn) @ ''#'' @ characteristicName sampleEnv cOn) =
     Some \<lparr>thingName = characteristicUrl sampleEnv lamp cOn @ ''#'' @ characteristicName sampleEnv cOn,
           props = props (characteristicThing sampleEnv cOn) @ [(IOT ''value'', IntegerLit ''0'')]\<rparr> \<and>
   fst (decodeValue sampleEnv
     \<lparr>thingName = characteristicUrl sampleEnv lamp cOn @ ''#'' @ characteristicName sampleEnv cOn,
      props = props (characteristicThing sampleEnv cOn) @ [(IOT ''value'', IntegerLit ''0'')]\<rparr>
     remoteOffWorld) = Some (JNum (Fin 0)) \<and>
   \<not> loose_eq sampleEnv (JNum (Fin 0)) (value cOn) \<and>
   setValue sampleEnv cOn (JNum (Fin 0)) = Applied (cOn\<lparr>value := JNum (Fin 0)\<rparr>) \<and>
   loose_eq sampleEnv (JNum (Fin 0)) (value (cOn\<lparr>value := JNum (Fin 0)\<rparr>)) \<and>
   characteristicUrl sampleEnv lamp (cOn\<lparr>value := JNum (Fin 0)\<rparr>) =
     drop 4 (''pub '' @ characteristicUrl sampleEnv lamp cOn) \<and>
   value (cOn\<lparr>value := JNum (Fin 0)\<rparr>) = JNum (Fin 0) \<and>
   localWrites (snd (onmessage sampleEnv (''pub '' @ characteristicUrl sampleEnv lamp cOn) remoteOffWorld)) =
     localWrites remoteOffWorld @ [(cOn, JNum (Fin 0))] \<and>
   requests (snd (syncCharacteristicToSolid sampleEnv lamp (cOn\<lparr>value := JNum (Fin 0)\<rparr>)
     (snd (onmessage sampleEnv (''pub '' @ characteristicUrl sampleEnv lamp cOn) remoteOffWorld)))) =
     requests remoteOffWorld"
proof -
  let ?url = "characteristicUrl sampleEnv lamp cOn"
  let ?r = "(characteristicThing sampleEnv cOn)
             \<lparr>props := props (characteristicThing sampleEnv cOn) @ [(IOT ''value'', IntegerLit ''0'')]\<rparr>"
  let ?t = "\<lparr>thingName = ?url @ ''#'' @ characteristicName sampleEnv cOn,
           props = props (characteristicThing sampleEnv cOn) @ [(IOT ''value'', IntegerLit ''0'')]\<rparr>"
  let ?c = "cOn\<lparr>value := JNum (Fin 0)\<rparr>"
  have h1: "''pub '' @ ?url \<noteq> []" and h2: "take 3 (''pub '' @ ?url) = ''pub''"
    by simp_all
  have h3: "characteristics remoteOffWorld (drop 4 (''pub '' @ ?url)) = Some cOn"
    and h5: "pod remoteOffWorld (responseUrl sampleEnv (drop 4 (''pub '' @ ?url))) = Some [?r]"
    by (simp_all add: remoteOffWorld_def emptyWorld_def)
  have h4: "fetchAccepted sampleEnv (length (fetches remoteOffWorld))"
    and h9: "setValue sampleEnv cOn (JNum (Fin 0)) = Applied ?c"
    by (simp_all add: sampleEnv_def)
  have h6: "getThing (resolveDataset (responseUrl sampleEnv (drop 4 (''pub '' @ ?url))) [?r])
      (drop 4 (''pub '' @ ?url) @ ''#'' @ characteristicName sampleEnv cOn) = Some ?t"
    by (simp add: getThing_def resolveDataset_def cOn_response characteristicThing_name)
  have h7: "fst (decodeValue sampleEnv ?t remoteOffWorld) = Some (JNum (Fin 0))"
    by (simp add: decode_record [where c = cOn and rt = sampleEnv and l = "IntegerLit ''0''"]
        supportedFormats_def cOn_facts sample_numbers nullIfNaN_def)
  have h8: "\<not> loose_eq sampleEnv (JNum (Fin 0)) (value cOn)"
    and h10: "loose_eq sampleEnv (JNum (Fin 0)) (value ?c)"
    by (simp_all add: cOn_facts num_eq_def BoolToNumber_def)
  have h11: "characteristicUrl sampleEnv lamp ?c = drop 4 (''pub '' @ ?url)"
    by (simp add: characteristicUrl_def)
  have h12: "value ?c = JNum (Fin 0)"
    by simp
  note r = applied_remote_value_not_echoed [OF h1 h2 h3 h4 h5 h6 h7 h8 h9 h10 h11 h12]
  show ?thesis
    by (intro conjI h1 h2 h3 h4 h5 h6 h7 h8 h9 h10 h11 h12 r [THEN conjunct2, THEN conjunct1]
        r [THEN conjunct2, THEN conjunct2, THEN conjunct2, THEN conjunct2])
qed

section \<open>Resource naming (claim C6)\<close>

text \<open>
  Claim C6. The regular-expression replacement keeps exactly the ASCII letters of a name,
  in their order. The record of a characteristic is named by the letters of its type
  followed by its instance id, the record of a device by the letters of its name followed
  by its accessory id, and the record of a group by the letters of its name alone. Names
  and urls depend on nothing but these inputs: two entities that agree on them get the
  same name and the same url.
\<close>

theorem resource_names:
  "replaceNonLetters n = filter isAsciiLetter n \<and>
   thingName (characteristicThing e c) =
     filter isAsciiLetter (type c) @ NumberToString e (iid c) \<and>
   thingName (deviceThing e device) =
     filter isAsciiLetter (serviceName device) @ NumberToString e (aid device) \<and>
   thingName (groupThing g urls) = filter isAsciiLetter g \<and>
   (type c = type c' \<and> iid c = iid c' \<longrightarrow>
      thingName (characteristicThing e c) = thingName (characteristicThing e c')) \<and>
   (serviceName device = serviceName device' \<and> aid device = aid device' \<longrightarrow>
      thingName (deviceThing e device) = thingName (deviceThing e device')) \<and>
   (uniqueId device = uniqueId device' \<and> type c = type c' \<longrightarrow>
      characteristicUrl e device c = characteristicUrl e device' c') \<and>
   (uniqueId device = uniqueId device' \<longrightarrow> deviceUrl e device = deviceUrl e device')"
  by (simp add: replaceNonLetters_filter characteristicThing_name deviceThing_name
      groupThing_name characteristicName_def deviceName_def groupThingName_def
      characteristicUrl_def deviceUrl_def)

theorem resource_names_witness:
  "replaceNonLetters ''Kitchen Lamp'' = ''KitchenLamp'' \<and>
   thingName (deviceThing sampleEnv lamp) = ''KitchenLamp2'' \<and>
   thingName (characteristicThing sampleEnv cTemp) = ''CurrentTemperature11'' \<and>
   thingName (groupThing ''Home 1'' []) = ''Home'' \<and>
   type cOn = type (cOn\<lparr>value := JBool False\<rparr>) \<and> iid cOn = iid (cOn\<lparr>value := JBool False\<rparr>) \<and>
   thingName (characteristicThing sampleEnv cOn) =
     thingName (characteristicThing sampleEnv (cOn\<lparr>value := JBool False\<rparr>)) \<and>
   serviceName lamp = serviceName (lamp\<lparr>serviceCharacteristics := []\<rparr>) \<and>
   aid lamp = aid (lamp\<lparr>serviceCharacteristics := []\<rparr>) \<and>
   uniqueId lamp = uniqueId (lamp\<lparr>serviceCharacteristics := []\<rparr>) \<and>
   thingName (deviceThing sampleEnv lamp) =
     thingName (deviceThing sampleEnv (lamp\<lparr>serviceCharacteristics := []\<rparr>)) \<and>
   characteristicUrl sampleEnv lamp cOn =
     characteristicUrl sampleEnv (lamp\<lparr>serviceCharacteristics := []\<rparr>) (cOn\<lparr>value := JBool False\<rparr>) \<and>
   deviceUrl sampleEnv lamp = deviceUrl sampleEnv (lamp\<lparr>serviceCharacteristics := []\<rparr>)"
proof -
  have n: "NumberToString sampleEnv (Fin 2) = ''2''" "NumberToString sampleEnv (Fin 11) = ''11''"
    by (rule sample_texts)+
  have l: "filter isAsciiLetter ''Kitchen Lamp'' = ''KitchenLamp''"
    "filter isAsciiLetter ''Current Temperature'' = ''CurrentTemperature''"
    "filter isAsciiLetter ''Home 1'' = ''Home''"
    by (simp_all add: isAsciiLetter_def)
  have f: "serviceName lamp = ''Kitchen Lamp''" "aid lamp = Fin 2"
    "type cTemp = ''Current Temperature''" "iid cTemp = Fin 11"
    by (simp_all add: lamp_def cTemp_def)
  let ?c' = "cOn\<lparr>value := JBool False\<rparr>"
  let ?d' = "lamp\<lparr>serviceCharacteristics := []\<rparr>"
  note a = resource_names [where e = sampleEnv and n = "''Kitchen Lamp''" and device = lamp
      and c = cTemp and g = "''Home 1''" and urls = "[]" and c' = cTemp and device' = lamp]
  note b = resource_names [where e = sampleEnv and n = "[]" and c = cOn and c' = ?c'
      and device = lamp and device' = ?d' and g = "[]" and urls = "[]"]
  have w1: "replaceNonLetters ''Kitchen Lamp'' = ''KitchenLamp''"
    using a by (simp only: l)
  have w2: "thingName (deviceThing sampleEnv lamp) = ''KitchenLamp2''"
    using a by (simp only: l n f) simp
  have w3: "thingName (characteristicThing sampleEnv cTemp) = ''CurrentTemperature11''"
    using a by (simp only: l n f) simp
  have w4: "thingName (groupThing ''Home 1'' []) = ''Home''"
    using a by (simp only: l)
  have h: "type cOn = type ?c'" "iid cOn = iid ?c'" "serviceName lamp = serviceName ?d'"
    "aid lamp = aid ?d'" "uniqueId lamp = uniqueId ?d'"
    by simp_all
  have w5: "thingName (characteristicThing sampleEnv cOn) = thingName (characteristicThing sampleEnv ?c')"
    and w6: "thingName (deviceThing sampleEnv lamp) = thingName (deviceThing sampleEnv ?d')"
    and w7: "characteristicUrl sampleEnv lamp cOn = characteristicUrl sampleEnv ?d' ?c'"
    and w8: "deviceUrl sampleEnv lamp = deviceUrl sampleEnv ?d'"
    using b h by blast+
  show ?thesis
    by (intro conjI w1 w2 w3 w4 h w5 w6 w7 w8)
qed

section \<open>The value codec (claim C7)\<close>

text \<open>
  Claim C7. After a forward sync whose write is accepted, the pod holds the record that
  the switch of the forward sync has filled, and the switch of the message handler decodes
  from this record, under whatever name the fetch gives it, the value that was stored:
  for the format \<open>string\<close> a string as the same text; for \<open>float\<close> and for the integer
  family a number as the same number, when the text that the library stores for it reads
  back as that number; and for \<open>bool\<close> a boolean as the integer 1 or 0, likewise.
\<close>

theorem decode_returns_stored_value:
  assumes "\<not> suppressed e device c w" and "saveAccepted e (length (requests w))"
  shows "\<exists>t. pod (snd (syncCharacteristicToSolid e device c w))
                (responseUrl e (characteristicUrl e device c)) = Some [t] \<and>
           (format c = ''string'' \<and> value c = JStr s \<longrightarrow>
              fst (decodeValue e (t\<lparr>thingName := n\<rparr>) w') = Some (JStr s)) \<and>
           (format c = ''float'' \<and> value c = JNum x \<and> x \<noteq> NaN \<and>
            parseFloat e (NumberToString e x) = x \<longrightarrow>
              fst (decodeValue e (t\<lparr>thingName := n\<rparr>) w') = Some (JNum x)) \<and>
           (format c \<in> integerFamily \<and> value c = JNum x \<and> x \<noteq> NaN \<and>
            parseInt10 e (NumberToString e x) = x \<longrightarrow>
              fst (decodeValue e (t\<lparr>thingName := n\<rparr>) w') = Some (JNum x)) \<and>
           (format c = ''bool'' \<and> value c = JBool b \<and>
            parseInt10 e (NumberToString e (BoolToNumber b)) = BoolToNumber b \<longrightarrow>
              fst (decodeValue e (t\<lparr>thingName := n\<rparr>) w') = Some (JNum (Fin (if b then 1 else 0))))"
proof -
  let ?t = "fst (encodeValue e c (characteristicThing e c) w)"
  let ?t' = "?t\<lparr>thingName := n\<rparr>"
  have p: "pod (snd (syncCharacteristicToSolid e device c w))
      (responseUrl e (characteristicUrl e device c)) = Some [?t]"
    using assms by (simp add: sync_not_suppressed Let_def)
  have d: "format c \<in> supportedFormats \<Longrightarrow> fst (decodeValue e ?t' w') =
     (if format c = ''string'' then Some (JStr (ToString e (value c)))
      else if format c = ''float''
      then map_option JNum (nullIfNaN (parseFloat e (NumberToString e
             (case value c of JStr s \<Rightarrow> parseFloat e s | _ \<Rightarrow> unary_plus e (value c)))))
      else map_option JNum (nullIfNaN (parseInt10 e (NumberToString e
             (case value c of JStr s \<Rightarrow> parseInt e s | _ \<Rightarrow> unary_plus e (value c))))))"
    by (rule decode_encode) simp_all
  have 1: "format c = ''string'' \<and> value c = JStr s \<longrightarrow> fst (decodeValue e ?t' w') = Some (JStr s)"
    using d by (simp add: supportedFormats_def)
  have 2: "format c = ''float'' \<and> value c = JNum x \<and> x \<noteq> NaN \<and>
      parseFloat e (NumberToString e x) = x \<longrightarrow> fst (decodeValue e ?t' w') = Some (JNum x)"
    using d by (simp add: supportedFormats_def nullIfNaN_def)
  have 3: "format c \<in> integerFamily \<and> value c = JNum x \<and> x \<noteq> NaN \<and>
      parseInt10 e (NumberToString e x) = x \<longrightarrow> fst (decodeValue e ?t' w') = Some (JNum x)"
    using d by (auto simp: supportedFormats_def integerFamily_def nullIfNaN_def)
  have 4: "format c = ''bool'' \<and> value c = JBool b \<and>
      parseInt10 e (NumberToString e (BoolToNumber b)) = BoolToNumber b \<longrightarrow>
        fst (decodeValue e ?t' w') = Some (JNum (Fin (if b then 1 else 0)))"
    using d by (simp add: supportedFormats_def nullIfNaN_def BoolToNumber_def)
  show ?thesis
    using p 1 2 3 4 by blast
qed

theorem decode_returns_stored_value_witness:
  "\<not> suppressed sampleEnv lamp cOn emptyWorld \<and>
   \<not> suppressed sampleEnv lamp cTemp emptyWorld \<and>
   \<not> suppressed sampleEnv lamp cBrightness emptyWorld \<and>
   \<not> suppressed sampleEnv lamp cLabel emptyWorld \<and>
   saveAccepted sampleEnv (length (requests emptyWorld)) \<and>
   format cOn = ''bool'' \<and> value cOn = JBool True \<and>
   parseInt10 sampleEnv (NumberToString sampleEnv (BoolToNumber True)) = BoolToNumber True \<and>
   (\<exists>t. pod (snd (syncCharacteristicToSolid sampleEnv lamp cOn emptyWorld))
           (responseUrl sampleEnv (characteristicUrl sampleEnv lamp cOn)) = Some [t] \<and>
        fst (decodeValue sampleEnv (t\<lparr>thingName := []\<rparr>) emptyWorld) = Some (JNum (Fin 1))) \<and>
   format cTemp = ''float'' \<and> value cTemp = JNum (Fin 21.5) \<and> Fin 21.5 \<noteq> NaN \<and>
   parseFloat sampleEnv (NumberToString sampleEnv (Fin 21.5)) = Fin 21.5 \<and>
   (\<exists>t. pod (snd (syncCharacteristicToSolid sampleEnv lamp cTemp emptyWorld))
           (responseUrl sampleEnv (characteristicUrl sampleEnv lamp cTemp)) = Some [t] \<and>
        fst (decodeValue sampleEnv (t\<lparr>thingName := []\<rparr>) emptyWorld) = Some (JNum (Fin 21.5))) \<and>
   format cBrightness \<in> integerFamily \<and> value cBrightness = JNum (Fin 80) \<and> Fin 80 \<noteq> NaN \<and>
   parseInt10 sampleEnv (NumberToString sampleEnv (Fin 80)) = Fin 80 \<and>
   (\<exists>t. pod (snd (syncCharacteristicToSolid sampleEnv lamp cBrightness emptyWorld))
           (responseUrl sampleEnv (characteristicUrl sampleEnv lamp cBrightness)) = Some [t] \<and>
        fst (decodeValue sampleEnv (t\<lparr>thingName := []\<rparr>) emptyWorld) = Some (JNum (Fin 80))) \<and>
   format cLabel = ''string'' \<and> value cLabel = JStr ''Kitchen Lamp'' \<and>
   (\<exists>t. pod (snd (syncCharacteristicToSolid sampleEnv lamp cLabel emptyWorld))
           (responseUrl sampleEnv (characteristicUrl sampleEnv lamp cLabel)) = Some [t] \<and>
        fst (decodeValue sampleEnv (t\<lparr>thingName := []\<rparr>) emptyWorld) = Some (JStr ''Kitchen Lamp''))"
proof -
  have a: "saveAccepted sampleEnv (length (requests emptyWorld))"
    by (simp add: sampleEnv_def)
  have i: "format cBrightness \<in> integerFamily"
    by (simp add: sample_formats integerFamily_def)
  have n: "Fin 21.5 \<noteq> NaN" "Fin 80 \<noteq> NaN"
    by simp_all
  have b: "parseInt10 sampleEnv (NumberToString sampleEnv (BoolToNumber True)) = BoolToNumber True"
    by (simp add: BoolToNumber_def sample_texts sample_numbers)
  have f: "parseFloat sampleEnv (NumberToString sampleEnv (Fin 21.5)) = Fin 21.5"
    and g: "parseInt10 sampleEnv (NumberToString sampleEnv (Fin 80)) = Fin 80"
    by (simp_all only: sample_texts sample_numbers)
  have w1: "\<exists>t. pod (snd (syncCharacteristicToSolid sampleEnv lamp cOn emptyWorld))
           (responseUrl sampleEnv (characteristicUrl sampleEnv lamp cOn)) = Some [t] \<and>
        fst (decodeValue sampleEnv (t\<lparr>thingName := []\<rparr>) emptyWorld) = Some (JNum (Fin 1))"
    using decode_returns_stored_value [where e = sampleEnv and device = lamp and c = cOn
        and w = emptyWorld and w' = emptyWorld and b = True and n = "[]",
        OF not_suppressed_empty a] b
    by (auto simp: cOn_facts)
  have w2: "\<exists>t. pod (snd (syncCharacteristicToSolid sampleEnv lamp cTemp emptyWorld))
           (responseUrl sampleEnv (characteristicUrl sampleEnv lamp cTemp)) = Some [t] \<and>
        fst (decodeValue sampleEnv (t\<lparr>thingName := []\<rparr>) emptyWorld) = Some (JNum (Fin 21.5))"
    using decode_returns_stored_value [where e = sampleEnv and device = lamp and c = cTemp
        and w = emptyWorld and w' = emptyWorld and x = "Fin 21.5" and n = "[]",
        OF not_suppressed_empty a] f
    by (auto simp: sample_formats)
  have w3: "\<exists>t. pod (snd (syncCharacteristicToSolid sampleEnv lamp cBrightness emptyWorld))
           (responseUrl sampleEnv (characteristicUrl sampleEnv lamp cBrightness)) = Some [t] \<and>
        fst (decodeValue sampleEnv (t\<lparr>thingName := []\<rparr>) emptyWorld) = Some (JNum (Fin 80))"
    using decode_returns_stored_value [where e = sampleEnv and device = lamp and c = cBrightness
        and w = emptyWorld and w' = emptyWorld and x = "Fin 80" and n = "[]",
        OF not_suppressed_empty a] g i
    by (auto simp: sample_formats)
  have w4: "\<exists>t. pod (snd (syncCharacteristicToSolid sampleEnv lamp cLabel emptyWorld))
           (responseUrl sampleEnv (characteristicUrl sampleEnv lamp cLabel)) = Some [t] \<and>
        fst (decodeValue sampleEnv (t\<lparr>thingName := []\<rparr>) emptyWorld) = Some (JStr ''Kitchen Lamp'')"
    using decode_returns_stored_value [where e = sampleEnv and device = lamp and c = cLabel
        and w = emptyWorld and w' = emptyWorld and s = "''Kitchen Lamp''" and n = "[]",
        OF not_suppressed_empty a]
    by (auto simp: sample_formats)
  show ?thesis
    by (intro conjI not_suppressed_empty a cOn_facts(1,2) b w1 sample_formats n f w2 i g w3 w4)
qed

section \<open>Notifications for unknown resources (claim C8)\<close>

text \<open>
  Claim C8. A message whose resource id has no cache entry ends the handler normally and
  leaves the whole state as it was: no fetch, no local write, no cache update.
\<close>

theorem unknown_resource_dropped:
  assumes "characteristics w (drop 4 msg) = None"
  shows "onmessage e msg w = (Inr (), w)"
  using assms by (simp add: onmessage_def)

theorem unknown_resource_dropped_witness:
  "characteristics emptyWorld (drop 4 ''pub https://pod.example/home/Characteristics/d9/On'') = None \<and>
   onmessage sampleEnv ''pub https://pod.example/home/Characteristics/d9/On'' emptyWorld =
     (Inr (), emptyWorld)"
proof -
  have a: "characteristics emptyWorld (drop 4 ''pub https://pod.example/home/Characteristics/d9/On'') = None"
    by (simp add: emptyWorld_def)
  show ?thesis
    using unknown_resource_dropped [OF a, of sampleEnv] a by simp
qed

section \<open>The comparison is loose (claim C9)\<close>

text \<open>
  Claim C9. A number and a string that converts to that number, and the number 1 and the
  boolean \<open>true\<close>, are equal by \<^verbatim>\<open>==\<close> and not by \<^verbatim>\<open>===\<close>. Both directions compare
  with \<^verbatim>\<open>==\<close>: a forward sync whose value is loosely equal to the cached one resolves
  with \<^verbatim>\<open>undefined\<close> and changes nothing, and a reverse sync that decodes a value
  loosely equal to the cached one ends after the fetch, with no local write and no cache
  update.
\<close>

theorem comparison_is_loose:
  "(n \<noteq> NaN \<and> StringToNumber e s = n \<longrightarrow>
      loose_eq e (JNum n) (JStr s) \<and> loose_eq e (JStr s) (JNum n) \<and>
      \<not> strict_eq (JNum n) (JStr s) \<and> \<not> strict_eq (JStr s) (JNum n)) \<and>
   loose_eq e (JNum (Fin 1)) (JBool True) \<and> loose_eq e (JBool True) (JNum (Fin 1)) \<and>
   \<not> strict_eq (JNum (Fin 1)) (JBool True) \<and> \<not> strict_eq (JBool True) (JNum (Fin 1)) \<and>
   (characteristics w (characteristicUrl e device c) = Some cur \<and>
    loose_eq e (value c) (value cur) \<longrightarrow>
      syncCharacteristicToSolid e device c w = (Inr None, w)) \<and>
   (msg \<noteq> [] \<and> take 3 msg = ''pub'' \<and> characteristics w (drop 4 msg) = Some cur' \<and>
    fetchAccepted e (length (fetches w)) \<and> pod w (responseUrl e (drop 4 msg)) = Some data \<and>
    getThing (resolveDataset (responseUrl e (drop 4 msg)) data)
      (drop 4 msg @ ''#'' @ characteristicName e cur') = Some t \<and>
    fst (decodeValue e t w) = Some v \<and> loose_eq e v (value cur') \<longrightarrow>
      onmessage e msg w = (Inr (), w\<lparr>fetches := fetches w @ [drop 4 msg]\<rparr>))"
proof (intro conjI impI)
  assume "characteristics w (characteristicUrl e device c) = Some cur \<and>
    loose_eq e (value c) (value cur)"
  then have "suppressed e device c w"
    by (simp add: suppressed_def)
  then show "syncCharacteristicToSolid e device c w = (Inr None, w)"
    by (rule sync_suppressed)
next
  assume h: "msg \<noteq> [] \<and> take 3 msg = ''pub'' \<and> characteristics w (drop 4 msg) = Some cur' \<and>
    fetchAccepted e (length (fetches w)) \<and> pod w (responseUrl e (drop 4 msg)) = Some data \<and>
    getThing (resolveDataset (responseUrl e (drop 4 msg)) data)
      (drop 4 msg @ ''#'' @ characteristicName e cur') = Some t \<and>
    fst (decodeValue e t w) = Some v \<and> loose_eq e v (value cur')"
  then have "onmessage e msg w =
     (let w2 = w\<lparr>fetches := fetches w @ [drop 4 msg]\<rparr> in
      if \<not> loose_eq e v (value cur') then
        (case setValue e cur' v of
           Unavailable \<Rightarrow> (Inr (), w2)
         | Rejected \<Rightarrow> (Inl LocalWriteError, w2\<lparr>localWrites := localWrites w2 @ [(cur', v)]\<rparr>)
         | Applied updated \<Rightarrow>
             (Inr (), w2\<lparr>localWrites := localWrites w2 @ [(cur', v)],
                        characteristics := (characteristics w2)(drop 4 msg \<mapsto> updated)\<rparr>))
      else (Inr (), w2))"
    by (intro onmessage_decoded [where t = t and data = data]) blast+
  then show "onmessage e msg w = (Inr (), w\<lparr>fetches := fetches w @ [drop 4 msg]\<rparr>)"
    using h by (simp add: Let_def)
qed (simp_all add: num_eq_def BoolToNumber_def)

theorem comparison_is_loose_witness:
  "Fin 1 \<noteq> NaN \<and> StringToNumber sampleEnv ''1'' = Fin 1 \<and>
   loose_eq sampleEnv (JNum (Fin 1)) (JStr ''1'') \<and> \<not> strict_eq (JNum (Fin 1)) (JStr ''1'') \<and>
   characteristics syncedWorld (characteristicUrl sampleEnv lamp (cOn\<lparr>value := JNum (Fin 1)\<rparr>)) = Some cOn \<and>
   loose_eq sampleEnv (value (cOn\<lparr>value := JNum (Fin 1)\<rparr>)) (value cOn) \<and>
   syncCharacteristicToSolid sampleEnv lamp (cOn\<lparr>value := JNum (Fin 1)\<rparr>) syncedWorld =
     (Inr None, syncedWorld) \<and>
   ''pub '' @ characteristicUrl sampleEnv lamp cOn \<noteq> [] \<and>
   take 3 (''pub '' @ characteristicUrl sampleEnv lamp cOn) = ''pub'' \<and>
   characteristics (snd (syncCharacteristicToSolid sampleEnv lamp cOn emptyWorld))
     (drop 4 (''pub '' @ characteristicUrl sampleEnv lamp cOn)) = Some cOn \<and>
   fetchAccepted sampleEnv (length (fetches (snd (syncCharacteristicToSolid sampleEnv lamp cOn emptyWorld)))) \<and>
   pod (snd (syncCharacteristicToSolid sampleEnv lamp cOn emptyWorld))
     (responseUrl sampleEnv (drop 4 (''pub '' @ characteristicUrl sampleEnv lamp cOn))) =
     Some [fst (encodeValue sampleEnv cOn (characteristicThing sampleEnv cOn) emptyWorld)] \<and>
   getThing (resolveDataset
       (responseUrl sampleEnv (drop 4 (''pub '' @ characteristicUrl sampleEnv lamp cOn)))
       [fst (encodeValue sampleEnv cOn (characteristicThing sampleEnv cOn) emptyWorld)])
     (drop 4 (''pub '' @ characteristicUrl sampleEnv lamp cOn) @ ''#'' @ characteristicName sampleEnv cOn) =
     Some ((fst (encodeValue sampleEnv cOn (characteristicThing sampleEnv cOn) emptyWorld))
       \<lparr>thingName := characteristicUrl sampleEnv lamp cOn @ ''#'' @ characteristicName sampleEnv cOn\<rparr>) \<and>
   fst (decodeValue sampleEnv
     ((fst (encodeValue sampleEnv cOn (characteristicThing sampleEnv cOn) emptyWorld))
       \<lparr>thingName := characteristicUrl sampleEnv lamp cOn @ ''#'' @ characteristicName sampleEnv cOn\<rparr>)
     (snd (syncCharacteristicToSolid sampleEnv lamp cOn emptyWorld))) = Some (JNum (Fin 1)) \<and>
   loose_eq sampleEnv (JNum (Fin 1)) (value cOn) \<and>
   onmessage sampleEnv (''pub '' @ characteristicUrl sampleEnv lamp cOn)
     (snd (syncCharacteristicToSolid sampleEnv lamp cOn emptyWorld)) =
     (Inr (), (snd (syncCharacteristicToSolid sampleEnv lamp cOn emptyWorld))
        \<lparr>fetches := fetches (snd (syncCharacteristicToSolid sampleEnv lamp cOn emptyWorld)) @
           [drop 4 (''pub '' @ characteristicUrl sampleEnv lamp cOn)]\<rparr>)"
proof -
  let ?url = "characteristicUrl sampleEnv lamp cOn"
  let ?c = "cOn\<lparr>value := JNum (Fin 1)\<rparr>"
  let ?w = "snd (syncCharacteristicToSolid sampleEnv lamp cOn emptyWorld)"
  let ?r = "fst (encodeValue sampleEnv cOn (characteristicThing sampleEnv cOn) emptyWorld)"
  let ?t = "?r\<lparr>thingName := ?url @ ''#'' @ characteristicName sampleEnv cOn\<rparr>"
  have a1: "Fin 1 \<noteq> NaN"
    by simp
  have a2: "StringToNumber sampleEnv ''1'' = Fin 1"
    by (rule sample_numbers)
  have acc: "saveAccepted sampleEnv n" "fetchAccepted sampleEnv n" for n
    by (simp_all add: sampleEnv_def)
  have f1: "characteristics syncedWorld (characteristicUrl sampleEnv lamp ?c) = Some cOn"
    by (simp add: syncedWorld_def characteristicUrl_def cOn_def cTemp_def)
  have f2: "loose_eq sampleEnv (value ?c) (value cOn)"
    and r8: "loose_eq sampleEnv (JNum (Fin 1)) (value cOn)"
    by (simp_all add: cOn_facts num_eq_def BoolToNumber_def)
  have r1: "''pub '' @ ?url \<noteq> []" and r2: "take 3 (''pub '' @ ?url) = ''pub''"
    by simp_all
  have r3: "characteristics ?w (drop 4 (''pub '' @ ?url)) = Some cOn"
    by (simp add: sync_cache not_suppressed_empty)
  have r4: "fetchAccepted sampleEnv (length (fetches ?w))"
    by (rule acc)
  have r5: "pod ?w (responseUrl sampleEnv (drop 4 (''pub '' @ ?url))) = Some [?r]"
    by (simp add: sync_not_suppressed not_suppressed_empty Let_def acc)
  have r6: "getThing (resolveDataset (responseUrl sampleEnv (drop 4 (''pub '' @ ?url))) [?r])
      (drop 4 (''pub '' @ ?url) @ ''#'' @ characteristicName sampleEnv cOn) = Some ?t"
    by (simp add: getThing_def resolveDataset_def cOn_response encodeValue_thingName
        characteristicThing_name)
  have r7: "fst (decodeValue sampleEnv ?t ?w) = Some (JNum (Fin 1))"
    by (simp add: decode_encode [where c = cOn and w = emptyWorld] supportedFormats_def cOn_facts
        BoolToNumber_def sample_texts sample_numbers nullIfNaN_def)
  note t = comparison_is_loose [where e = sampleEnv and n = "Fin 1" and s = "''1''"
      and w = syncedWorld and device = lamp and c = ?c and cur = cOn]
  note u = comparison_is_loose [where e = sampleEnv and w = ?w and msg = "''pub '' @ ?url"
      and cur' = cOn and data = "[?r]" and t = ?t and v = "JNum (Fin 1)"]
  have t1: "loose_eq sampleEnv (JNum (Fin 1)) (JStr ''1'')"
    and t2: "\<not> strict_eq (JNum (Fin 1)) (JStr ''1'')"
    using t a1 a2 by blast+
  have t3: "syncCharacteristicToSolid sampleEnv lamp ?c syncedWorld = (Inr None, syncedWorld)"
    using t f1 f2 by blast
  have u1: "onmessage sampleEnv (''pub '' @ ?url) ?w =
      (Inr (), ?w\<lparr>fetches := fetches ?w @ [drop 4 (''pub '' @ ?url)]\<rparr>)"
    using u r1 r2 r3 r4 r5 r6 r7 r8 by blast
  show ?thesis
    by (intro conjI a1 a2 t1 t2 f1 f2 t3 r1 r2 r3 r4 r5 r6 r7 r8 u1)
qed

section \<open>Links of a device record on a repeated sync (claim C10)\<close>

text \<open>
  Claim C10. In the loop of the full sync, a characteristic whose sync is suppressed by
  the cache leaves the device record as it is: no link is added for it. When the sync of
  every characteristic of a device is suppressed, the full sync writes, as the device
  record, the record built before the loop, which has no \<open>hasCharacteristic\<close> link. That is the case on a repeated full sync: after
  a full sync that resolved, of a device whose characteristics have distinct types and
  values other than \<^verbatim>\<open>NaN\<close>, the next full sync writes the record without links.
\<close>

theorem suppressed_characteristics_unlinked:
  "(suppressed e device c w \<longrightarrow>
      linkCharacteristics e device (c # cs) t w = linkCharacteristics e device cs t w) \<and>
   ((\<forall>c\<in>set (serviceCharacteristics device). suppressed e device c w) \<longrightarrow>
      syncDeviceToSolid e device w =
        saveSolidDatasetAt e (deviceUrl e device) [deviceThing e device] w) \<and>
   (fst (syncDeviceToSolid e device w) = Inr u \<and>
    distinct (map type (serviceCharacteristics device)) \<and>
    (\<forall>c\<in>set (serviceCharacteristics device). value c \<noteq> JNum NaN) \<longrightarrow>
      syncDeviceToSolid e device (snd (syncDeviceToSolid e device w)) =
        saveSolidDatasetAt e (deviceUrl e device) [deviceThing e device]
          (snd (syncDeviceToSolid e device w))) \<and>
   getUrlAll (deviceThing e device) (IOT ''hasCharacteristic'') = []"
proof (intro conjI impI)
  assume "suppressed e device c w"
  then show "linkCharacteristics e device (c # cs) t w = linkCharacteristics e device cs t w"
    by (simp add: sync_suppressed)
next
  assume "\<forall>c\<in>set (serviceCharacteristics device). suppressed e device c w"
  then show "syncDeviceToSolid e device w =
        saveSolidDatasetAt e (deviceUrl e device) [deviceThing e device] w"
    by (simp add: syncDevice_unfold link_all_suppressed)
next
  let ?l = "linkCharacteristics e device (serviceCharacteristics device) (deviceThing e device) w"
  let ?w1 = "snd (syncDeviceToSolid e device w)"
  assume h: "fst (syncDeviceToSolid e device w) = Inr u \<and>
    distinct (map type (serviceCharacteristics device)) \<and>
    (\<forall>c\<in>set (serviceCharacteristics device). value c \<noteq> JNum NaN)"
  then obtain t' where t': "fst ?l = Inr t'"
    by (cases "fst ?l") (simp_all add: syncDevice_unfold)
  have "\<forall>c\<in>set (serviceCharacteristics device). suppressed e device c (snd ?l)"
    using link_suppresses [OF t'] h by simp
  moreover have "characteristics ?w1 = characteristics (snd ?l)"
    by (simp add: syncDevice_unfold t' save_characteristics)
  ultimately have "\<forall>c\<in>set (serviceCharacteristics device). suppressed e device c ?w1"
    by (simp add: suppressed_def)
  then show "syncDeviceToSolid e device ?w1 =
        saveSolidDatasetAt e (deviceUrl e device) [deviceThing e device] ?w1"
    by (simp add: syncDevice_unfold link_all_suppressed)
next
  show "getUrlAll (deviceThing e device) (IOT ''hasCharacteristic'') = []"
    by (rule deviceThing_no_links)
qed

theorem suppressed_characteristics_unlinked_witness:
  "serviceCharacteristics lamp = [cOn, cTemp] \<and>
   suppressed sampleEnv lamp cOn syncedWorld \<and> suppressed sampleEnv lamp cTemp syncedWorld \<and>
   linkCharacteristics sampleEnv lamp (cOn # [cTemp]) (deviceThing sampleEnv lamp) syncedWorld =
     linkCharacteristics sampleEnv lamp [cTemp] (deviceThing sampleEnv lamp) syncedWorld \<and>
   syncDeviceToSolid sampleEnv lamp syncedWorld =
     saveSolidDatasetAt sampleEnv (deviceUrl sampleEnv lamp) [deviceThing sampleEnv lamp] syncedWorld \<and>
   fst (syncDeviceToSolid sampleEnv lamp emptyWorld) = Inr (responseUrl sampleEnv (deviceUrl sampleEnv lamp)) \<and>
   distinct (map type (serviceCharacteristics lamp)) \<and>
   value cOn \<noteq> JNum NaN \<and> value cTemp \<noteq> JNum NaN \<and>
   syncDeviceToSolid sampleEnv lamp (snd (syncDeviceToSolid sampleEnv lamp emptyWorld)) =
     saveSolidDatasetAt sampleEnv (deviceUrl sampleEnv lamp) [deviceThing sampleEnv lamp]
       (snd (syncDeviceToSolid sampleEnv lamp emptyWorld))"
proof -
  have s: "serviceCharacteristics lamp = [cOn, cTemp]"
    by (simp add: lamp_def)
  have t: "type cOn \<noteq> type cTemp"
    by (simp add: cOn_def cTemp_def)
  have v: "value cOn \<noteq> JNum NaN" "value cTemp \<noteq> JNum NaN"
    "loose_eq sampleEnv (value cOn) (value cOn)" "loose_eq sampleEnv (value cTemp) (value cTemp)"
    by (simp_all add: cOn_def cTemp_def num_eq_def)
  have sup: "suppressed sampleEnv lamp cOn syncedWorld" "suppressed sampleEnv lamp cTemp syncedWorld"
    using t by (simp_all add: suppressed_def syncedWorld_def characteristicUrl_inj v)
  have f: "fst (syncDeviceToSolid sampleEnv lamp emptyWorld) = Inr (responseUrl sampleEnv (deviceUrl sampleEnv lamp))"
    by (rule syncDevice_accepted) (simp add: sampleEnv_def)
  note a = suppressed_characteristics_unlinked [where e = sampleEnv and device = lamp
      and w = syncedWorld and c = cOn and cs = "[cTemp]" and t = "deviceThing sampleEnv lamp"
      and u = "responseUrl sampleEnv (deviceUrl sampleEnv lamp)"]
  note b = suppressed_characteristics_unlinked [where e = sampleEnv and device = lamp
      and w = emptyWorld and c = cOn and cs = "[cTemp]" and t = "deviceThing sampleEnv lamp"
      and u = "responseUrl sampleEnv (deviceUrl sampleEnv lamp)"]
  have d: "distinct (map type (serviceCharacteristics lamp))"
    using t by (simp add: s)
  have a1: "linkCharacteristics sampleEnv lamp (cOn # [cTemp]) (deviceThing sampleEnv lamp) syncedWorld =
     linkCharacteristics sampleEnv lamp [cTemp] (deviceThing sampleEnv lamp) syncedWorld"
    using a sup by blast
  have a2: "syncDeviceToSolid sampleEnv lamp syncedWorld =
     saveSolidDatasetAt sampleEnv (deviceUrl sampleEnv lamp) [deviceThing sampleEnv lamp] syncedWorld"
    using a sup by (simp add: s)
  have b1: "syncDeviceToSolid sampleEnv lamp (snd (syncDeviceToSolid sampleEnv lamp emptyWorld)) =
     saveSolidDatasetAt sampleEnv (deviceUrl sampleEnv lamp) [deviceThing sampleEnv lamp]
       (snd (syncDeviceToSolid sampleEnv lamp emptyWorld))"
    using b f d v by (simp add: s)
  show ?thesis
    by (intro conjI s sup a1 a2 f d v(1,2) b1)
qed

end
